theory Spec2Isabelle
  imports Main "HOL-Library.Sublist" "HOL-Library.Log_Nat"
begin

text \<open>
  A shallow embedding of the price service of \<open>main.go\<close>: the address registry, the
  token-pair cache, \<open>fetchTokenPrice\<close> and \<open>handleTokenPrice\<close>. The file holds the
  program twice; the second copy, the one with the cache, is the one embedded (the
  fetcher of the first copy differs in a logging option only). The browser, the clock and
  the library functions are inputs of the model; float64 arithmetic is modelled exactly,
  as rounding of the rational result.
\<close>

section \<open>IEEE binary64 values and the three operations the fetcher uses\<close>

text \<open>
  Go's \<open>float64\<close>. A finite value is \<open>Num q\<close> with \<open>q\<close> the exact rational it
  denotes (\<open>Num 0\<close> is the positive zero); the negative zero, the two infinities and the
  not-a-number are constructors of their own.
\<close>

datatype float64 = Num rat | NegZero | PosInf | NegInf | NaN

definition pow2 :: "int \<Rightarrow> rat" where
  "pow2 e = 2 powi e"

text \<open>Round to the nearest integer, ties to the even one.\<close>

definition round_even :: "rat \<Rightarrow> int" where
  "round_even q =
     (let f = \<lfloor>q\<rfloor>; d = q - of_int f
      in if d < 1 / 2 then f
         else if 1 / 2 < d then f + 1
         else if even f then f else f + 1)"

text \<open>
  The binary exponent of a positive rational \<open>a\<close>: the \<open>e\<close> with
  \<open>2 ^ e \<le> a < 2 ^ (e + 1)\<close>, from the bit lengths of numerator and denominator.
\<close>

definition exponent2 :: "rat \<Rightarrow> int" where
  "exponent2 a =
     (let (p, q) = quotient_of a; e0 = bitlen p - bitlen q
      in if pow2 e0 \<le> a then e0 else e0 - 1)"

text \<open>
  Rounding of an exact result to binary64, round-to-nearest-even: 53 significant bits,
  least exponent -1022 (below it the spacing stays \<open>2 ^ -1074\<close>: subnormals), overflow
  to an infinity from \<open>2 ^ 1024\<close> on. The flag is the sign of a result that is zero.
\<close>

definition round_f64 :: "bool \<Rightarrow> rat \<Rightarrow> float64" where
  "round_f64 neg q =
     (if q = 0 then (if neg then NegZero else Num 0)
      else
        let a = \<bar>q\<bar>;
            u = pow2 (max (exponent2 a) (- 1022) - 52);
            r = of_int (round_even (a / u)) * u
        in if pow2 1024 \<le> r then (if q < 0 then NegInf else PosInf)
           else if r = 0 then (if q < 0 then NegZero else Num 0)
           else Num (if q < 0 then - r else r))"

definition f64_of_rat :: "rat \<Rightarrow> float64" where
  "f64_of_rat q = round_f64 False q"

fun is_neg :: "float64 \<Rightarrow> bool" where
  "is_neg (Num q) = (q < 0)"
| "is_neg NegZero = True"
| "is_neg PosInf = False"
| "is_neg NegInf = True"
| "is_neg NaN = False"

fun is_zero :: "float64 \<Rightarrow> bool" where
  "is_zero (Num q) = (q = 0)"
| "is_zero NegZero = True"
| "is_zero _ = False"

fun is_inf :: "float64 \<Rightarrow> bool" where
  "is_inf PosInf = True"
| "is_inf NegInf = True"
| "is_inf _ = False"

fun rat_of :: "float64 \<Rightarrow> rat" where
  "rat_of (Num q) = q"
| "rat_of _ = 0"

definition signed_inf :: "bool \<Rightarrow> float64" where
  "signed_inf neg = (if neg then NegInf else PosInf)"

definition signed_zero :: "bool \<Rightarrow> float64" where
  "signed_zero neg = (if neg then NegZero else Num 0)"

text \<open>The operator \<open>*\<close> on float64.\<close>

definition f64_mul :: "float64 \<Rightarrow> float64 \<Rightarrow> float64" where
  "f64_mul x y =
     (let neg = (is_neg x \<noteq> is_neg y)
      in if x = NaN \<or> y = NaN then NaN
         else if is_inf x \<or> is_inf y then
           (if is_zero x \<or> is_zero y then NaN else signed_inf neg)
         else round_f64 neg (rat_of x * rat_of y))"

text \<open>The operator \<open>/\<close> on float64: dividing by a zero gives an infinity or NaN, no panic.\<close>

definition f64_div :: "float64 \<Rightarrow> float64 \<Rightarrow> float64" where
  "f64_div x y =
     (let neg = (is_neg x \<noteq> is_neg y)
      in if x = NaN \<or> y = NaN then NaN
         else if is_inf x then (if is_inf y then NaN else signed_inf neg)
         else if is_inf y then signed_zero neg
         else if is_zero y then (if is_zero x then NaN else signed_inf neg)
         else round_f64 neg (rat_of x / rat_of y))"

text \<open>\<open>math.Floor\<close>: zeros, infinities and NaN are returned as they are.\<close>

fun Floor :: "float64 \<Rightarrow> float64" where
  "Floor (Num q) = (if q = 0 then Num 0 else Num (of_int \<lfloor>q\<rfloor>))"
| "Floor x = x"

text \<open>
  \<open>math.Pow10 n\<close> for \<open>0 \<le> n \<le> 31\<close>, which covers the three exponents the fetcher
  passes: the table entry \<open>1eN\<close>, the binary64 nearest to \<open>10 ^ n\<close>.
\<close>

definition Pow10 :: "nat \<Rightarrow> float64" where
  "Pow10 n = f64_of_rat (10 ^ n)"

section \<open>The quote and the cache\<close>

text \<open>An instant (\<open>time.Time\<close>) in nanoseconds; a \<open>time.Duration\<close> likewise.\<close>

type_synonym time = int

definition CACHE_TTL :: int where
  "CACHE_TTL = 2 * (3600 * 1000000000)"

record Result =
  Input_Amount :: float64
  Input_Token :: string
  Output_Amount :: float64
  Output_Token :: string
  ExchangeRate :: float64
  Timestamp :: string

text \<open>The zero value \<open>Result{}\<close>.\<close>

definition Result_zero :: Result where
  "Result_zero =
     \<lparr>Input_Amount = Num 0, Input_Token = [], Output_Amount = Num 0, Output_Token = [],
      ExchangeRate = Num 0, Timestamp = []\<rparr>"

record CacheEntry =
  Result :: Result
  ExpiresAt :: time

text \<open>\<open>map[string]map[string]map[string]CacheEntry\<close>\<close>

type_synonym TokenPairCache = "string \<rightharpoonup> (string \<rightharpoonup> (string \<rightharpoonup> CacheEntry))"

definition NewTokenPairCache :: TokenPairCache where
  "NewTokenPairCache = Map.empty"

text \<open>\<open>t.After(u)\<close>: \<open>t\<close> is strictly later than \<open>u\<close>.\<close>

definition After :: "time \<Rightarrow> time \<Rightarrow> bool" where
  "After t u = (u < t)"

text \<open>\<open>Get\<close>; the last argument is the instant \<open>time.Now()\<close> returns inside it.\<close>

definition TokenPairCache_Get ::
  "TokenPairCache \<Rightarrow> string \<Rightarrow> string \<Rightarrow> string \<Rightarrow> time \<Rightarrow> Result \<times> bool" where
  "TokenPairCache_Get c inputToken outputToken amount now =
     (case c inputToken of
        None \<Rightarrow> (Result_zero, False)
      | Some byOutput \<Rightarrow>
          (case byOutput outputToken of
             None \<Rightarrow> (Result_zero, False)
           | Some byAmount \<Rightarrow>
               (case byAmount amount of
                  None \<Rightarrow> (Result_zero, False)
                | Some entry \<Rightarrow>
                    if After now (ExpiresAt entry) then (Result_zero, False)
                    else (Result entry, True))))"

text \<open>
  \<open>Set\<close>: the two missing levels are made first, then the entry is assigned. The inner
  maps are reachable only through the outer one, so the in-place update is the update of
  the nested value.
\<close>

definition TokenPairCache_Set ::
  "TokenPairCache \<Rightarrow> string \<Rightarrow> string \<Rightarrow> string \<Rightarrow> Result \<Rightarrow> time \<Rightarrow> TokenPairCache" where
  "TokenPairCache_Set c inputToken outputToken amount result now =
     (let byOutput = (case c inputToken of None \<Rightarrow> Map.empty | Some m \<Rightarrow> m);
          byAmount = (case byOutput outputToken of None \<Rightarrow> Map.empty | Some m \<Rightarrow> m)
      in c(inputToken \<mapsto>
           byOutput(outputToken \<mapsto>
             byAmount(amount \<mapsto> \<lparr>Result = result, ExpiresAt = now + CACHE_TTL\<rparr>))))"

text \<open>The entry physically stored under a key triple, if any.\<close>

definition stored :: "TokenPairCache \<Rightarrow> string \<Rightarrow> string \<Rightarrow> string \<Rightarrow> CacheEntry option" where
  "stored c inputToken outputToken amount =
     (case c inputToken of
        None \<Rightarrow> None
      | Some byOutput \<Rightarrow>
          (case byOutput outputToken of None \<Rightarrow> None | Some byAmount \<Rightarrow> byAmount amount))"

section \<open>The address registry\<close>

definition MON_ADDRESS :: string where
  "MON_ADDRESS = ''0x0000000000000000000000000000000000000000''"

definition DAK_ADDRESS :: string where
  "DAK_ADDRESS = ''0x0F0BDEbF0F83cD1EE3974779Bcb7315f9808c714''"

definition LBTC_ADDRESS :: string where
  "LBTC_ADDRESS = ''0x73a58b73018c1a417534232529b57b99132b13D2''"

definition USDC_ADDRESS :: string where
  "USDC_ADDRESS = ''0xf817257fed379853cDe0fa4F97AB987181B1E5Ea''"

definition USDT_ADDRESS :: string where
  "USDT_ADDRESS = ''0xf817257fed379853cDe0fa4F97AB987181B1E5Ea''"

definition WETH_ADDRESS :: string where
  "WETH_ADDRESS = ''0xB5a30b0FDc5EA94A52fDc42e3E9760Cb8449Fb37''"

definition WBTC_ADDRESS :: string where
  "WBTC_ADDRESS = ''0xcf5a6076cfa32686c0Df13aBaDa2b40dec133F1d''"

definition tokenAddresses :: "string \<rightharpoonup> string" where
  "tokenAddresses =
     map_of
       [(''mon'', MON_ADDRESS),
        (''wmon'', MON_ADDRESS),
        (''dak'', DAK_ADDRESS),
        (''lbtc'', LBTC_ADDRESS),
        (''usdc'', USDC_ADDRESS),
        (''usdt'', USDT_ADDRESS),
        (''eth'', WETH_ADDRESS),
        (''wbtc'', WBTC_ADDRESS)]"

section \<open>The fetcher\<close>

text \<open>
  What the browser session gives back to \<open>chromedp.Run\<close>. Either one of the actions
  before the closing \<open>ActionFunc\<close> fails (navigate, wait, clear, type, sleep, the two
  reads), or the two reads deliver the value of the input box and of the output box; the
  last component is the outcome of the second \<open>Evaluate\<close>, the one inside the
  \<open>ActionFunc\<close>: \<open>Inl\<close> its error, \<open>Inr\<close> the string it stores in \<open>result\<close>.
\<close>

datatype session = RunFailed string | RunRead string string "string + string"

text \<open>
  The collaborators of the fetcher that are not code of this repository: the browser
  (given the target URL and the amount typed), \<open>strings.TrimSpace\<close>,
  \<open>strconv.ParseFloat\<close> at 64 bits (\<open>Inl\<close> the message of its error) and the
  \<open>RFC3339\<close> formatting of an instant.
\<close>

record env =
  Run :: "string \<Rightarrow> string \<Rightarrow> session"
  TrimSpace :: "string \<Rightarrow> string"
  ParseFloat :: "string \<Rightarrow> string + float64"
  Format :: "time \<Rightarrow> string"

text \<open>
  The body of the \<open>ActionFunc\<close>: \<open>outputValue\<close> after it, from \<open>outputValue\<close>
  before it. The \<open>ActionFunc\<close> itself always returns \<open>nil\<close>.
\<close>

definition fallbackProbe :: "string \<Rightarrow> string + string \<Rightarrow> string" where
  "fallbackProbe outputValue fallback =
     (if outputValue = ''0'' \<or> outputValue = '''' then
        (case fallback of
           Inl err \<Rightarrow> outputValue
         | Inr result \<Rightarrow> if result \<noteq> '''' then result else outputValue)
      else outputValue)"

definition decimalPlaces :: "string \<Rightarrow> nat" where
  "decimalPlaces outputToken =
     (if outputToken = ''lbtc'' then 8
      else if outputToken = ''usdc'' then 2
      else if outputToken = ''usdt'' then 2
      else if outputToken = ''eth'' then 5
      else if outputToken = ''wbtc'' then 8
      else 2)"

text \<open>\<open>math.Floor(outputAmount*factor) / factor\<close> with \<open>factor := math.Pow10(decimalPlaces)\<close>\<close>

definition truncateOutput :: "string \<Rightarrow> float64 \<Rightarrow> float64" where
  "truncateOutput outputToken outputAmount =
     (let factor = Pow10 (decimalPlaces outputToken)
      in f64_div (Floor (f64_mul outputAmount factor)) factor)"

text \<open>
  \<open>fetchTokenPrice\<close>; the second argument is the instant \<open>time.Now()\<close> returns when
  the result is stamped. An error is its message.
\<close>

definition fetchTokenPrice ::
  "env \<Rightarrow> time \<Rightarrow> string \<Rightarrow> string \<Rightarrow> string \<Rightarrow> string \<Rightarrow> string + Result" where
  "fetchTokenPrice env now inputToken outputToken amount targetURL =
     (case Run env targetURL amount of
        RunFailed err \<Rightarrow> Inl err
      | RunRead inputRead outputRead fallback \<Rightarrow>
          (let inputValue = TrimSpace env inputRead;
               outputValue = TrimSpace env (fallbackProbe outputRead fallback)
           in case ParseFloat env inputValue of
                Inl err \<Rightarrow> Inl err
              | Inr inputAmount \<Rightarrow>
                  (case ParseFloat env outputValue of
                     Inl err \<Rightarrow> Inl err
                   | Inr parsed \<Rightarrow>
                       (let outputAmount = truncateOutput outputToken parsed;
                            exchangeRate = f64_div outputAmount inputAmount
                        in Inr \<lparr>Input_Amount = inputAmount, Input_Token = inputToken,
                                Output_Amount = outputAmount, Output_Token = outputToken,
                                ExchangeRate = exchangeRate, Timestamp = Format env now\<rparr>))))"

section \<open>The request handler\<close>

text \<open>
  The query string as the map from a key to its first value; \<open>c.Query\<close> gives the empty
  string for a key that is absent.
\<close>

type_synonym query = "string \<rightharpoonup> string"

definition Query :: "query \<Rightarrow> string \<Rightarrow> string" where
  "Query q key = (case q key of None \<Rightarrow> '''' | Some v \<Rightarrow> v)"

text \<open>
  What the handler hands to \<open>c.JSON\<close>: the status and the value to encode, which is
  \<open>gin.H{"error": msg}\<close> or the quote.
\<close>

datatype body = ErrorJSON string | ResultJSON Result

record response =
  status :: nat
  body :: body

definition StatusOK :: nat where
  "StatusOK = 200"

definition StatusBadRequest :: nat where
  "StatusBadRequest = 400"

definition StatusInternalServerError :: nat where
  "StatusInternalServerError = 500"

text \<open>\<open>fmt.Sprintf("https://kuru.io/swap?from=%s&to=%s", fromAddress, toAddress)\<close>\<close>

definition targetURL :: "string \<Rightarrow> string \<Rightarrow> string" where
  "targetURL fromAddress toAddress =
     ''https://kuru.io/swap?from='' @ fromAddress @ ''&to='' @ toAddress"

text \<open>
  The three instants at which one request reads the clock: inside \<open>Get\<close>, when the
  fetcher stamps the result, and inside \<open>Set\<close>.
\<close>

record clock =
  atGet :: time
  atStamp :: time
  atSet :: time

text \<open>
  \<open>handleTokenPrice\<close>: from the global cache and the request to the response written
  and the cache afterwards.
\<close>

definition handleTokenPrice ::
  "env \<Rightarrow> clock \<Rightarrow> TokenPairCache \<Rightarrow> query \<Rightarrow> response \<times> TokenPairCache" where
  "handleTokenPrice env clk cache q =
     (let inputToken = Query q ''input'';
          outputToken = Query q ''output'';
          amount = Query q ''amount''
      in if inputToken = '''' \<or> outputToken = '''' \<or> amount = '''' then
           (\<lparr>status = StatusBadRequest,
             body = ErrorJSON ''input, output, and amount parameters are required''\<rparr>, cache)
         else
           (case tokenAddresses inputToken of
              None \<Rightarrow>
                (\<lparr>status = StatusBadRequest,
                  body = ErrorJSON (''unsupported input token: '' @ inputToken)\<rparr>, cache)
            | Some fromAddress \<Rightarrow>
                (case tokenAddresses outputToken of
                   None \<Rightarrow>
                     (\<lparr>status = StatusBadRequest,
                       body = ErrorJSON (''unsupported output token: '' @ outputToken)\<rparr>, cache)
                 | Some toAddress \<Rightarrow>
                     (case TokenPairCache_Get cache inputToken outputToken amount (atGet clk) of
                        (cachedResult, True) \<Rightarrow>
                          (\<lparr>status = StatusOK, body = ResultJSON cachedResult\<rparr>, cache)
                      | (_, False) \<Rightarrow>
                          (case fetchTokenPrice env (atStamp clk) inputToken outputToken amount
                                  (targetURL fromAddress toAddress) of
                             Inl err \<Rightarrow>
                               (\<lparr>status = StatusInternalServerError, body = ErrorJSON err\<rparr>,
                                cache)
                           | Inr result \<Rightarrow>
                               (\<lparr>status = StatusOK, body = ResultJSON result\<rparr>,
                                TokenPairCache_Set cache inputToken outputToken amount result
                                  (atSet clk)))))))"

text \<open>A run of the server: the requests handled one after the other on the one cache.\<close>

fun serve :: "(env \<times> clock \<times> query) list \<Rightarrow> TokenPairCache \<Rightarrow> TokenPairCache" where
  "serve [] cache = cache"
| "serve ((env, clk, q) # rest) cache = serve rest (snd (handleTokenPrice env clk cache q))"

section \<open>An environment to run the model in\<close>

text \<open>
  \<open>strconv.ParseFloat\<close> on the plain decimal numerals: digits, with at most one point
  among them and at least one digit. The value is the binary64 nearest to the numeral
  (the library rounds correctly); a numeral that rounds to infinity is a range error.
  The library accepts more (a sign, an exponent, hexadecimal, infinities, NaN): here
  every other string is a syntax error. The theorems below hold for every
  \<open>ParseFloat\<close>; this one runs the model on examples.
\<close>

definition digit :: "char \<Rightarrow> nat option" where
  "digit c = (let n = (of_char c :: nat) in if 48 \<le> n \<and> n \<le> 57 then Some (n - 48) else None)"

fun digits :: "string \<Rightarrow> nat \<Rightarrow> nat option" where
  "digits [] acc = Some acc"
| "digits (c # cs) acc = (case digit c of None \<Rightarrow> None | Some d \<Rightarrow> digits cs (10 * acc + d))"

definition syntaxError :: "string \<Rightarrow> string" where
  "syntaxError s = ''strconv.ParseFloat: parsing '' @ [CHR 0x22] @ s @ [CHR 0x22] @ '': invalid syntax''"

definition rangeError :: "string \<Rightarrow> string" where
  "rangeError s = ''strconv.ParseFloat: parsing '' @ [CHR 0x22] @ s @ [CHR 0x22] @ '': value out of range''"

definition ParseFloat_decimal :: "string \<Rightarrow> string + float64" where
  "ParseFloat_decimal s =
     (let whole = takeWhile (\<lambda>c. c \<noteq> CHR ''.'') s;
          frac = (case dropWhile (\<lambda>c. c \<noteq> CHR ''.'') s of [] \<Rightarrow> [] | _ # cs \<Rightarrow> cs)
      in if whole @ frac = [] then Inl (syntaxError s)
         else
           (case digits (whole @ frac) 0 of
              None \<Rightarrow> Inl (syntaxError s)
            | Some n \<Rightarrow>
                (case f64_of_rat (of_nat n / 10 ^ length frac) of
                   PosInf \<Rightarrow> Inl (rangeError s)
                 | v \<Rightarrow> Inr v)))"

text \<open>\<open>strings.TrimSpace\<close> on ASCII text: tab, line feed, vertical tab, form feed,
  carriage return and space are cut from both ends.\<close>

definition isSpace :: "char \<Rightarrow> bool" where
  "isSpace c = (let n = (of_char c :: nat) in (9 \<le> n \<and> n \<le> 13) \<or> n = 32)"

definition TrimSpace_ascii :: "string \<Rightarrow> string" where
  "TrimSpace_ascii s = rev (dropWhile isSpace (rev (dropWhile isSpace s)))"

text \<open>
  A swap page that reads the typed amount back and shows the given output in the box
  the first selector finds (the second selector finds nothing), and a page that does not
  load before the deadline.
\<close>

definition page_showing :: "string \<Rightarrow> string \<Rightarrow> string \<Rightarrow> session" where
  "page_showing output url amount = RunRead amount output (Inl ''TypeError: null has no value'')"

definition page_down :: "string \<Rightarrow> string \<Rightarrow> session" where
  "page_down url amount = RunFailed ''context deadline exceeded''"

text \<open>
  A swap page that exists at one URL only: there it reads the typed amount back and shows
  the given output; the browser fails to load any other URL.
\<close>

definition page_only_at :: "string \<Rightarrow> string \<Rightarrow> string \<Rightarrow> string \<Rightarrow> session" where
  "page_only_at target output url amount =
     (if url = target then RunRead amount output (Inl ''TypeError: null has no value'')
      else RunFailed ''page load error net::ERR_ABORTED'')"

definition env_with :: "(string \<Rightarrow> string \<Rightarrow> session) \<Rightarrow> env" where
  "env_with run =
     \<lparr>Run = run, TrimSpace = TrimSpace_ascii, ParseFloat = ParseFloat_decimal,
      Format = (\<lambda>t. ''2025-01-01T00:00:00Z'')\<rparr>"

definition request :: "string \<Rightarrow> string \<Rightarrow> string \<Rightarrow> query" where
  "request i out a = [''input'' \<mapsto> i, ''output'' \<mapsto> out, ''amount'' \<mapsto> a]"

definition clock0 :: clock where
  "clock0 = \<lparr>atGet = 1000, atStamp = 6000, atSet = 6001\<rparr>"

text \<open>The instants of a later request, still within the two hours.\<close>

definition clock1 :: clock where
  "clock1 = \<lparr>atGet = 9000, atStamp = 14000, atSet = 14001\<rparr>"

section \<open>Notions used to state the properties\<close>

text \<open>Every entry is stored under the two symbols its quote is labelled with.\<close>

definition labelled :: "TokenPairCache \<Rightarrow> bool" where
  "labelled c \<longleftrightarrow>
     (\<forall>i out a e. stored c i out a = Some e \<longrightarrow>
        Input_Token (Result e) = i \<and> Output_Token (Result e) = out)"

text \<open>A quote to store in examples.\<close>

definition quote_usdc_eth :: Result where
  "quote_usdc_eth =
     \<lparr>Input_Amount = Num 1, Input_Token = ''usdc'', Output_Amount = Num (1 / 2),
      Output_Token = ''eth'', ExchangeRate = Num (1 / 2), Timestamp = ''2025-01-01T00:00:00Z''\<rparr>"

section \<open>Rounding to binary64, characterised\<close>

lemma pow2_pos: "0 < pow2 e"
  by (simp add: pow2_def)

lemma pow2_strict_mono: "a < b \<Longrightarrow> pow2 a < pow2 b"
  unfolding pow2_def by (rule power_int_strict_increasing) simp_all

lemma pow2_less_iff: "pow2 a < pow2 b \<longleftrightarrow> a < b"
proof
  assume l: "pow2 a < pow2 b"
  show "a < b"
  proof (rule ccontr)
    assume "\<not> a < b"
    then have "b = a \<or> b < a" by linarith
    then have "pow2 b \<le> pow2 a" using pow2_strict_mono [of b a] by auto
    with l show False by simp
  qed
qed (rule pow2_strict_mono)

lemma pow2_add: "pow2 (a + b) = pow2 a * pow2 b"
  by (simp add: pow2_def power_int_add)

lemma bitlen_pow2_bounds:
  assumes "0 < p"
  shows "pow2 (bitlen p - 1) \<le> of_int p" "of_int p < pow2 (bitlen p)"
proof -
  from bitlen_bounds [OF assms]
  have a: "2 ^ nat (bitlen p - 1) \<le> p" and b: "p < 2 ^ nat (bitlen p)" by auto
  have bl: "1 \<le> bitlen p" using assms by (auto simp: bitlen_alt_def)
  have "pow2 (bitlen p - 1) = of_int (2 ^ nat (bitlen p - 1))"
    using bl by (simp add: pow2_def power_int_def)
  also have "\<dots> \<le> of_int p" using a by (simp only: of_int_le_iff)
  finally show "pow2 (bitlen p - 1) \<le> of_int p" .
  have "(of_int p :: rat) < of_int (2 ^ nat (bitlen p))" using b by (simp only: of_int_less_iff)
  also have "\<dots> = pow2 (bitlen p)" using bl by (simp add: pow2_def power_int_def)
  finally show "of_int p < pow2 (bitlen p)" .
qed

text \<open>\<open>exponent2\<close> finds the binade of a positive rational.\<close>

lemma exponent2_unique:
  assumes "0 < a" "pow2 e \<le> a" "a < pow2 (e + 1)"
  shows "exponent2 a = e"
proof -
  obtain p q where pq: "quotient_of a = (p, q)" by (cases "quotient_of a")
  have q: "0 < q" using pq quotient_of_denom_pos by blast
  have a: "a = of_int p / of_int q" using pq quotient_of_div by blast
  have p: "0 < p" using assms(1) a q by (simp add: zero_less_divide_iff)
  define e0 where "e0 = bitlen p - bitlen q"
  note bp = bitlen_pow2_bounds [OF p] and bq = bitlen_pow2_bounds [OF q]
  have qpos: "(0::rat) < of_int q" using q by simp
  have lo: "pow2 (e0 - 1) < a"
  proof -
    have "pow2 (e0 - 1) * of_int q < pow2 (e0 - 1) * pow2 (bitlen q)"
      using bq(2) pow2_pos by simp
    also have "\<dots> = pow2 (bitlen p - 1)" by (simp add: e0_def pow2_add [symmetric])
    also have "\<dots> \<le> of_int p" by (rule bp(1))
    finally show ?thesis using qpos by (simp add: a pos_less_divide_eq)
  qed
  have hi: "a < pow2 (e0 + 1)"
  proof -
    have "of_int p < pow2 (bitlen p)" by (rule bp(2))
    also have "\<dots> = pow2 (e0 + 1) * pow2 (bitlen q - 1)"
      by (simp add: e0_def pow2_add [symmetric])
    also have "\<dots> \<le> pow2 (e0 + 1) * of_int q" using bq(1) pow2_pos by simp
    finally show ?thesis using qpos by (simp add: a pos_divide_less_eq)
  qed
  show ?thesis
  proof (cases "pow2 e0 \<le> a")
    case True
    have "pow2 e0 < pow2 (e + 1)" using True assms(3) by simp
    moreover have "pow2 e < pow2 (e0 + 1)" using hi assms(2) by simp
    ultimately have "e0 = e" by (simp add: pow2_less_iff)
    then show ?thesis using True by (simp add: exponent2_def pq e0_def)
  next
    case False
    have "pow2 (e0 - 1) < pow2 (e + 1)" using lo assms(3) by simp
    moreover have "pow2 e < pow2 e0" using False assms(2) by simp
    ultimately have "e0 - 1 = e" by (simp add: pow2_less_iff)
    then show ?thesis using False by (simp add: exponent2_def pq e0_def)
  qed
qed

lemma round_even_unique:
  assumes "\<bar>x - of_int m\<bar> < 1 / 2"
  shows "round_even x = m"
proof -
  from assms have up: "x - of_int m < 1 / 2" and lo: "- (1 / 2) < x - of_int m"
    unfolding abs_less_iff by simp_all
  have "m - 1 \<le> \<lfloor>x\<rfloor>" "\<lfloor>x\<rfloor> \<le> m" using up lo by linarith+
  then have "\<lfloor>x\<rfloor> = m \<or> \<lfloor>x\<rfloor> = m - 1" by linarith
  then show ?thesis
  proof
    assume f: "\<lfloor>x\<rfloor> = m"
    have "x - of_int \<lfloor>x\<rfloor> < 1 / 2" using up f by simp
    then show ?thesis using f by (simp add: round_even_def Let_def)
  next
    assume f: "\<lfloor>x\<rfloor> = m - 1"
    have "1 / 2 < x - of_int \<lfloor>x\<rfloor>" using lo f by simp
    then show ?thesis using f by (simp add: round_even_def Let_def)
  qed
qed

text \<open>
  A positive rational in the binade \<open>e\<close> of the normal range, strictly nearer to
  \<open>m * 2 ^ (e - 52)\<close> than to the neighbours, rounds to it.
\<close>

lemma round_f64_normal:
  assumes q: "0 < q" and lo: "pow2 e \<le> q" and hi: "q < pow2 (e + 1)"
    and e: "- 1022 \<le> e" "e \<le> 1022"
    and m: "\<bar>q / pow2 (e - 52) - of_int m\<bar> < 1 / 2"
  shows "round_f64 neg q = Num (of_int m * pow2 (e - 52))"
proof -
  have a: "\<bar>q\<bar> = q" using q by simp
  have ex: "exponent2 q = e" using q lo hi by (rule exponent2_unique)
  have u: "pow2 (max (exponent2 q) (- 1022) - 52) = pow2 (e - 52)"
    using ex e by (simp add: max_def)
  have re: "round_even (q / pow2 (e - 52)) = m"
    using m by (rule round_even_unique)
  have upos: "0 < pow2 (e - 52)" by (rule pow2_pos)
  from m have mup: "q / pow2 (e - 52) - of_int m < 1 / 2"
    and mlo: "- (1 / 2) < q / pow2 (e - 52) - of_int m"
    unfolding abs_less_iff by simp_all
  have s: "pow2 e / pow2 (e - 52) = 2 ^ 52" "pow2 (e + 1) / pow2 (e - 52) = 2 ^ 53"
    by (simp_all add: pow2_def power_int_diff [symmetric])
  have "2 ^ 52 \<le> q / pow2 (e - 52)"
    using lo upos s(1) by (metis divide_right_mono less_imp_le)
  then have "(2 ^ 52 :: rat) - 1 / 2 < of_int m" using mup by linarith
  then have mpos: "(0::rat) < of_int m" by simp
  have "q / pow2 (e - 52) < 2 ^ 53"
    using hi upos s(2) by (metis divide_strict_right_mono)
  then have "(of_int m :: rat) < of_int (2 ^ 53) + 1 / 2" using mlo by simp
  then have "(of_int m :: rat) < of_int (2 ^ 53 + 1)" by simp
  then have "m < 2 ^ 53 + 1" by (simp only: of_int_less_iff)
  then have "m \<le> 2 ^ 53" by simp
  then have "(of_int m :: rat) \<le> of_int (2 ^ 53)" by (simp only: of_int_le_iff)
  then have "of_int m * pow2 (e - 52) \<le> 2 ^ 53 * pow2 (e - 52)"
    using upos by simp
  also have "\<dots> = pow2 (e + 1)" by (simp add: pow2_def power_int_diff power_int_add)
  also have "\<dots> < pow2 1024" using e by (simp add: pow2_less_iff)
  finally have small: "\<not> pow2 1024 \<le> of_int m * pow2 (e - 52)" by simp
  have nz: "of_int m * pow2 (e - 52) \<noteq> 0" using mpos upos by simp
  have "round_f64 neg q =
     (let r = of_int (round_even (q / pow2 (e - 52))) * pow2 (e - 52)
      in if pow2 1024 \<le> r then (if q < 0 then NegInf else PosInf)
         else if r = 0 then (if q < 0 then NegZero else Num 0)
         else Num (if q < 0 then - r else r))"
    using q unfolding round_f64_def Let_def a u by simp
  also have "\<dots> = Num (of_int m * pow2 (e - 52))"
    unfolding re Let_def using small nz q by simp
  finally show ?thesis .
qed

section \<open>Properties of the cache\<close>

lemma stored_Set_same:
  "stored (TokenPairCache_Set c i out a r t) i out a =
     Some \<lparr>Result = r, ExpiresAt = t + CACHE_TTL\<rparr>"
  by (simp add: stored_def TokenPairCache_Set_def Let_def)

lemma stored_Set_other:
  "(i', out', a') \<noteq> (i, out, a) \<Longrightarrow>
     stored (TokenPairCache_Set c i out a r t) i' out' a' = stored c i' out' a'"
  by (auto simp: stored_def TokenPairCache_Set_def Let_def split: option.splits)

lemma Get_stored:
  "TokenPairCache_Get c i out a now =
     (case stored c i out a of
        None \<Rightarrow> (Result_zero, False)
      | Some entry \<Rightarrow>
          if ExpiresAt entry < now then (Result_zero, False) else (Result entry, True))"
  by (simp add: TokenPairCache_Get_def stored_def After_def split: option.splits)

lemma Get_Set_other:
  "(i', out', a') \<noteq> (i, out, a) \<Longrightarrow>
     TokenPairCache_Get (TokenPairCache_Set c i out a r t) i' out' a' now =
     TokenPairCache_Get c i' out' a' now"
  by (simp add: Get_stored stored_Set_other)

text \<open>
  C1, as the code has it. \<open>Get\<close> reports a miss when no entry is stored under the exact
  key triple, and when the stored entry's expiry instant is strictly before the current
  time; otherwise, so also at the expiry instant itself, it returns the stored quote with
  found = true.
\<close>

theorem Get_found_iff:
  "(stored c i out a = None \<longrightarrow> TokenPairCache_Get c i out a now = (Result_zero, False)) \<and>
   (\<forall>entry. stored c i out a = Some entry \<and> ExpiresAt entry < now \<longrightarrow>
      TokenPairCache_Get c i out a now = (Result_zero, False)) \<and>
   (\<forall>entry. stored c i out a = Some entry \<and> now \<le> ExpiresAt entry \<longrightarrow>
      TokenPairCache_Get c i out a now = (Result entry, True))"
  by (simp add: Get_stored)

theorem Get_found_iff_witness:
  "TokenPairCache_Get NewTokenPairCache ''usdc'' ''eth'' ''1'' 5 = (Result_zero, False) \<and>
   TokenPairCache_Get (TokenPairCache_Set NewTokenPairCache ''usdc'' ''eth'' ''1'' quote_usdc_eth 0)
      ''usdc'' ''eth'' ''1'' 7200000000001 = (Result_zero, False) \<and>
   TokenPairCache_Get (TokenPairCache_Set NewTokenPairCache ''usdc'' ''eth'' ''1'' quote_usdc_eth 0)
      ''usdc'' ''eth'' ''1'' 7199999999999 = (quote_usdc_eth, True)"
proof -
  let ?c = "TokenPairCache_Set NewTokenPairCache ''usdc'' ''eth'' ''1'' quote_usdc_eth 0"
  let ?e = "\<lparr>Result = quote_usdc_eth, ExpiresAt = 7200000000000\<rparr>"
  have none: "stored NewTokenPairCache ''usdc'' ''eth'' ''1'' = None"
    by (simp add: stored_def NewTokenPairCache_def)
  have some: "stored ?c ''usdc'' ''eth'' ''1'' = Some ?e"
    by (simp add: stored_Set_same CACHE_TTL_def)
  from Get_found_iff [of NewTokenPairCache "''usdc''" "''eth''" "''1''" 5] none
  have 1: "TokenPairCache_Get NewTokenPairCache ''usdc'' ''eth'' ''1'' 5 = (Result_zero, False)"
    by blast
  from Get_found_iff [of ?c "''usdc''" "''eth''" "''1''" 7200000000001] some
  have 2: "TokenPairCache_Get ?c ''usdc'' ''eth'' ''1'' 7200000000001 = (Result_zero, False)"
    by simp
  from Get_found_iff [of ?c "''usdc''" "''eth''" "''1''" 7199999999999] some
  have 3: "TokenPairCache_Get ?c ''usdc'' ''eth'' ''1'' 7199999999999 = (quote_usdc_eth, True)"
    by simp
  from 1 2 3 show ?thesis by simp
qed

text \<open>
  C1 as stated fails at the expiry instant: an entry stored at instant 0 expires at
  7200000000000 ns, and \<open>Get\<close> at exactly that instant, where the expiry is at (so at
  or before) the current time, still returns the quote with found = true.
\<close>

theorem Get_at_expiry_counterexample:
  "stored (TokenPairCache_Set NewTokenPairCache ''usdc'' ''eth'' ''1'' quote_usdc_eth 0)
      ''usdc'' ''eth'' ''1'' = Some \<lparr>Result = quote_usdc_eth, ExpiresAt = 7200000000000\<rparr> \<and>
   (7200000000000 :: time) \<le> 7200000000000 \<and>
   TokenPairCache_Get (TokenPairCache_Set NewTokenPairCache ''usdc'' ''eth'' ''1'' quote_usdc_eth 0)
      ''usdc'' ''eth'' ''1'' 7200000000000 = (quote_usdc_eth, True)"
  by (simp add: Get_stored stored_Set_same CACHE_TTL_def)

text \<open>
  C3. \<open>Set\<close> overwrites the entry of the key triple whatever the cache held, with the
  quote given and the expiry now + TTL, the TTL being two hours; after it both
  intermediate levels of the triple exist and lead to that entry; every other triple
  keeps what it had.
\<close>

theorem Set_overwrites:
  "stored (TokenPairCache_Set c i out a r now) i out a =
     Some \<lparr>Result = r, ExpiresAt = now + CACHE_TTL\<rparr> \<and>
   CACHE_TTL = 2 * 60 * 60 * 10 ^ 9 \<and>
   (\<exists>byOutput byAmount.
      TokenPairCache_Set c i out a r now i = Some byOutput \<and> byOutput out = Some byAmount \<and>
      byAmount a = Some \<lparr>Result = r, ExpiresAt = now + CACHE_TTL\<rparr>) \<and>
   ((i', out', a') \<noteq> (i, out, a) \<longrightarrow>
      stored (TokenPairCache_Set c i out a r now) i' out' a' = stored c i' out' a')"
proof -
  have lv: "\<exists>byOutput byAmount.
      TokenPairCache_Set c i out a r now i = Some byOutput \<and> byOutput out = Some byAmount \<and>
      byAmount a = Some \<lparr>Result = r, ExpiresAt = now + CACHE_TTL\<rparr>"
    by (simp add: TokenPairCache_Set_def Let_def)
  have ttl: "CACHE_TTL = 2 * 60 * 60 * 10 ^ 9" by (simp add: CACHE_TTL_def)
  show ?thesis using lv ttl stored_Set_same stored_Set_other by blast
qed

theorem Set_overwrites_witness:
  "stored (TokenPairCache_Set
             (TokenPairCache_Set NewTokenPairCache ''usdc'' ''eth'' ''1'' Result_zero 3)
             ''usdc'' ''eth'' ''1'' quote_usdc_eth 10) ''usdc'' ''eth'' ''1'' =
     Some \<lparr>Result = quote_usdc_eth, ExpiresAt = 7200000000010\<rparr> \<and>
   stored (TokenPairCache_Set
             (TokenPairCache_Set NewTokenPairCache ''usdc'' ''eth'' ''1'' Result_zero 3)
             ''usdc'' ''eth'' ''2'' quote_usdc_eth 10) ''usdc'' ''eth'' ''1'' =
     Some \<lparr>Result = Result_zero, ExpiresAt = 7200000000003\<rparr>"
proof -
  let ?c = "TokenPairCache_Set NewTokenPairCache ''usdc'' ''eth'' ''1'' Result_zero 3"
  have ne: "(''usdc'', ''eth'', ''1'') \<noteq> (''usdc'', ''eth'', ''2'')" by simp
  have old: "stored ?c ''usdc'' ''eth'' ''1'' = Some \<lparr>Result = Result_zero, ExpiresAt = 7200000000003\<rparr>"
    by (simp add: stored_Set_same CACHE_TTL_def)
  from Set_overwrites [of ?c "''usdc''" "''eth''" "''1''" quote_usdc_eth 10]
  have 1: "stored (TokenPairCache_Set ?c ''usdc'' ''eth'' ''1'' quote_usdc_eth 10) ''usdc'' ''eth'' ''1'' =
     Some \<lparr>Result = quote_usdc_eth, ExpiresAt = 7200000000010\<rparr>"
    by (simp add: CACHE_TTL_def)
  from Set_overwrites [of ?c "''usdc''" "''eth''" "''2''" quote_usdc_eth 10 "''usdc''" "''eth''" "''1''"] ne
  have 2: "stored (TokenPairCache_Set ?c ''usdc'' ''eth'' ''2'' quote_usdc_eth 10) ''usdc'' ''eth'' ''1'' =
     stored ?c ''usdc'' ''eth'' ''1''"
    by blast
  from 1 2 old show ?thesis by simp
qed

text \<open>
  C4. \<open>Get\<close> with the key triple of a \<open>Set\<close>, at any instant up to the expiry that
  \<open>Set\<close> stamped (in particular at the instant of the \<open>Set\<close> itself), returns the
  stored quote with found = true, whatever the cache held before.
\<close>

theorem Set_then_Get:
  "now' \<le> now + CACHE_TTL \<Longrightarrow>
     TokenPairCache_Get (TokenPairCache_Set c i out a r now) i out a now' = (r, True)"
  by (simp add: Get_stored stored_Set_same)

theorem Set_then_Get_witness:
  "(5::int) \<le> 5 + CACHE_TTL \<and>
   TokenPairCache_Get (TokenPairCache_Set NewTokenPairCache ''usdc'' ''eth'' ''1'' quote_usdc_eth 5)
     ''usdc'' ''eth'' ''1'' 5 = (quote_usdc_eth, True)"
proof -
  have h: "(5::int) \<le> 5 + CACHE_TTL" by (simp add: CACHE_TTL_def)
  from h Set_then_Get [OF h, of NewTokenPairCache "''usdc''" "''eth''" "''1''" quote_usdc_eth]
  show ?thesis by simp
qed

text \<open>
  C5. The amount is part of the key as the string submitted: a \<open>Set\<close> under the amount
  "1.0" changes nothing that a \<open>Get\<close> under the amount "1" of the same symbol pair
  returns, from any cache state; on a fresh cache that \<open>Get\<close> is a miss; and the same
  holds of any two different amount strings.
\<close>

theorem Get_amount_as_submitted:
  "TokenPairCache_Get (TokenPairCache_Set c i out ''1.0'' r t) i out ''1'' now =
     TokenPairCache_Get c i out ''1'' now \<and>
   TokenPairCache_Get (TokenPairCache_Set NewTokenPairCache ''usdc'' ''eth'' ''1.0'' r t)
     ''usdc'' ''eth'' ''1'' now = (Result_zero, False) \<and>
   (a' \<noteq> a \<longrightarrow>
      TokenPairCache_Get (TokenPairCache_Set c i out a r t) i out a' now =
        TokenPairCache_Get c i out a' now)"
  by (simp add: Get_Set_other) (simp add: Get_stored stored_def NewTokenPairCache_def)

theorem Get_amount_as_submitted_witness:
  "''1'' \<noteq> ''1.0'' \<and>
   TokenPairCache_Get (TokenPairCache_Set NewTokenPairCache ''usdc'' ''eth'' ''1.0'' quote_usdc_eth 0)
     ''usdc'' ''eth'' ''1'' 7 = TokenPairCache_Get NewTokenPairCache ''usdc'' ''eth'' ''1'' 7 \<and>
   TokenPairCache_Get (TokenPairCache_Set NewTokenPairCache ''usdc'' ''eth'' ''1.0'' quote_usdc_eth 0)
     ''usdc'' ''eth'' ''1'' 7 = (Result_zero, False)"
proof -
  have ne: "''1'' \<noteq> ''1.0''" by simp
  note g = Get_amount_as_submitted
    [where c = NewTokenPairCache and i = "''usdc''" and out = "''eth''" and r = quote_usdc_eth
       and t = 0 and now = 7 and a' = "''1''" and a = "''1.0''"]
  from ne g show ?thesis by blast
qed

lemma fetchTokenPrice_Inr:
  assumes "fetchTokenPrice env now i out a url = Inr r"
  obtains inputRead outputRead fallback inputAmount parsed where
    "Run env url a = RunRead inputRead outputRead fallback"
    "ParseFloat env (TrimSpace env inputRead) = Inr inputAmount"
    "ParseFloat env (TrimSpace env (fallbackProbe outputRead fallback)) = Inr parsed"
    "r = \<lparr>Input_Amount = inputAmount, Input_Token = i,
          Output_Amount = truncateOutput out parsed, Output_Token = out,
          ExchangeRate = f64_div (truncateOutput out parsed) inputAmount,
          Timestamp = Format env now\<rparr>"
  using assms unfolding fetchTokenPrice_def Let_def
  by (auto split: session.splits sum.splits)

lemma fetchTokenPrice_tokens:
  "fetchTokenPrice env now i out a url = Inr r \<Longrightarrow> Input_Token r = i \<and> Output_Token r = out"
  by (erule fetchTokenPrice_Inr) simp

lemmas status_defs = StatusOK_def StatusBadRequest_def StatusInternalServerError_def

text \<open>The six ways through \<open>handleTokenPrice\<close>.\<close>

lemma handle_cases:
  fixes env clk cache q
  defines "i \<equiv> Query q ''input''" and "out \<equiv> Query q ''output''" and "a \<equiv> Query q ''amount''"
  obtains
    (missing) "i = '''' \<or> out = '''' \<or> a = ''''"
      "handleTokenPrice env clk cache q =
         (\<lparr>status = 400,
           body = ErrorJSON ''input, output, and amount parameters are required''\<rparr>, cache)"
  | (unknown_input) "i \<noteq> ''''" "out \<noteq> ''''" "a \<noteq> ''''" "tokenAddresses i = None"
      "handleTokenPrice env clk cache q =
         (\<lparr>status = 400, body = ErrorJSON (''unsupported input token: '' @ i)\<rparr>, cache)"
  | (unknown_output) fromAddress where "i \<noteq> ''''" "out \<noteq> ''''" "a \<noteq> ''''"
      "tokenAddresses i = Some fromAddress" "tokenAddresses out = None"
      "handleTokenPrice env clk cache q =
         (\<lparr>status = 400, body = ErrorJSON (''unsupported output token: '' @ out)\<rparr>, cache)"
  | (hit) fromAddress toAddress r where "i \<noteq> ''''" "out \<noteq> ''''" "a \<noteq> ''''"
      "tokenAddresses i = Some fromAddress" "tokenAddresses out = Some toAddress"
      "TokenPairCache_Get cache i out a (atGet clk) = (r, True)"
      "handleTokenPrice env clk cache q = (\<lparr>status = 200, body = ResultJSON r\<rparr>, cache)"
  | (failed) fromAddress toAddress err where "i \<noteq> ''''" "out \<noteq> ''''" "a \<noteq> ''''"
      "tokenAddresses i = Some fromAddress" "tokenAddresses out = Some toAddress"
      "snd (TokenPairCache_Get cache i out a (atGet clk)) = False"
      "fetchTokenPrice env (atStamp clk) i out a (targetURL fromAddress toAddress) = Inl err"
      "handleTokenPrice env clk cache q = (\<lparr>status = 500, body = ErrorJSON err\<rparr>, cache)"
  | (fetched) fromAddress toAddress r where "i \<noteq> ''''" "out \<noteq> ''''" "a \<noteq> ''''"
      "tokenAddresses i = Some fromAddress" "tokenAddresses out = Some toAddress"
      "snd (TokenPairCache_Get cache i out a (atGet clk)) = False"
      "fetchTokenPrice env (atStamp clk) i out a (targetURL fromAddress toAddress) = Inr r"
      "handleTokenPrice env clk cache q =
         (\<lparr>status = 200, body = ResultJSON r\<rparr>,
          TokenPairCache_Set cache i out a r (atSet clk))"
proof (cases "i = '''' \<or> out = '''' \<or> a = ''''")
  case True
  then show ?thesis
    using missing unfolding i_def out_def a_def handleTokenPrice_def Let_def status_defs
    by simp
next
  case present: False
  show ?thesis
  proof (cases "tokenAddresses i")
    case None
    then show ?thesis
      using present unknown_input
      unfolding i_def out_def a_def handleTokenPrice_def Let_def status_defs by simp
  next
    case src: (Some fromAddress)
    show ?thesis
    proof (cases "tokenAddresses out")
      case None
      then show ?thesis
        using present src unknown_output
        unfolding i_def out_def a_def handleTokenPrice_def Let_def status_defs by simp
    next
      case dst: (Some toAddress)
      obtain r found where g: "TokenPairCache_Get cache i out a (atGet clk) = (r, found)"
        by (cases "TokenPairCache_Get cache i out a (atGet clk)")
      show ?thesis
      proof (cases found)
        case True
        then show ?thesis
          using present src dst g hit
          unfolding i_def out_def a_def handleTokenPrice_def Let_def status_defs by simp
      next
        case miss: False
        show ?thesis
        proof (cases "fetchTokenPrice env (atStamp clk) i out a (targetURL fromAddress toAddress)")
          case (Inl err)
          then show ?thesis
            using present src dst g miss failed
            unfolding i_def out_def a_def handleTokenPrice_def Let_def status_defs by simp
        next
          case (Inr res)
          then show ?thesis
            using present src dst g miss fetched
            unfolding i_def out_def a_def handleTokenPrice_def Let_def status_defs by simp
        qed
      qed
    qed
  qed
qed

lemma handle_status_400:
  "status (fst (handleTokenPrice env clk cache q)) = 400 \<longleftrightarrow>
     (Query q ''input'' = '''' \<or> Query q ''output'' = '''' \<or> Query q ''amount'' = '''' \<or>
      tokenAddresses (Query q ''input'') = None \<or> tokenAddresses (Query q ''output'') = None)"
  by (cases rule: handle_cases [of q env clk cache]) auto

lemma handle_400_body:
  "status (fst (handleTokenPrice env clk cache q)) = 400 \<Longrightarrow>
     \<exists>msg. body (fst (handleTokenPrice env clk cache q)) = ErrorJSON msg"
  by (cases rule: handle_cases [of q env clk cache]) auto

lemma Query_absent: "q key = None \<Longrightarrow> Query q key = ''''"
  by (simp add: Query_def)

lemma handle_unknown_input:
  "Query q ''input'' \<noteq> '''' \<Longrightarrow> Query q ''output'' \<noteq> '''' \<Longrightarrow> Query q ''amount'' \<noteq> '''' \<Longrightarrow>
   tokenAddresses (Query q ''input'') = None \<Longrightarrow>
     handleTokenPrice env clk cache q =
       (\<lparr>status = 400, body = ErrorJSON (''unsupported input token: '' @ Query q ''input'')\<rparr>, cache)"
  by (cases rule: handle_cases [of q env clk cache]) auto

lemma handle_unknown_output:
  "Query q ''input'' \<noteq> '''' \<Longrightarrow> Query q ''output'' \<noteq> '''' \<Longrightarrow> Query q ''amount'' \<noteq> '''' \<Longrightarrow>
   tokenAddresses (Query q ''input'') \<noteq> None \<Longrightarrow> tokenAddresses (Query q ''output'') = None \<Longrightarrow>
     handleTokenPrice env clk cache q =
       (\<lparr>status = 400, body = ErrorJSON (''unsupported output token: '' @ Query q ''output'')\<rparr>, cache)"
  by (cases rule: handle_cases [of q env clk cache]) auto

lemma handle_fetch_failed:
  "Query q ''input'' \<noteq> '''' \<Longrightarrow> Query q ''output'' \<noteq> '''' \<Longrightarrow> Query q ''amount'' \<noteq> '''' \<Longrightarrow>
   tokenAddresses (Query q ''input'') = Some fromAddress \<Longrightarrow>
   tokenAddresses (Query q ''output'') = Some toAddress \<Longrightarrow>
   snd (TokenPairCache_Get cache (Query q ''input'') (Query q ''output'') (Query q ''amount'')
          (atGet clk)) = False \<Longrightarrow>
   fetchTokenPrice env (atStamp clk) (Query q ''input'') (Query q ''output'') (Query q ''amount'')
     (targetURL fromAddress toAddress) = Inl err \<Longrightarrow>
     handleTokenPrice env clk cache q = (\<lparr>status = 500, body = ErrorJSON err\<rparr>, cache)"
  by (cases rule: handle_cases [of q env clk cache]) auto

lemma handle_cache_changed:
  "snd (handleTokenPrice env clk cache q) \<noteq> cache \<Longrightarrow>
     \<exists>fromAddress toAddress r.
       tokenAddresses (Query q ''input'') = Some fromAddress \<and>
       tokenAddresses (Query q ''output'') = Some toAddress \<and>
       fetchTokenPrice env (atStamp clk) (Query q ''input'') (Query q ''output'') (Query q ''amount'')
         (targetURL fromAddress toAddress) = Inr r \<and>
       handleTokenPrice env clk cache q =
         (\<lparr>status = 200, body = ResultJSON r\<rparr>,
          TokenPairCache_Set cache (Query q ''input'') (Query q ''output'') (Query q ''amount'') r
            (atSet clk))"
  by (cases rule: handle_cases [of q env clk cache]) auto

section \<open>Float64 arithmetic at the values the examples use\<close>

lemma f64_mul_Num:
  "f64_mul (Num x) (Num y) = round_f64 ((x < 0) \<noteq> (y < 0)) (x * y)"
  by (simp add: f64_mul_def)

lemma f64_div_Num:
  "y \<noteq> 0 \<Longrightarrow> f64_div (Num x) (Num y) = round_f64 ((x < 0) \<noteq> (y < 0)) (x / y)"
  by (simp add: f64_div_def)

lemma round_1: "round_f64 neg 1 = Num 1"
proof -
  have "round_f64 neg 1 = Num (of_int 4503599627370496 * pow2 (0 - 52))"
    by (rule round_f64_normal) (simp_all add: pow2_def)
  then show ?thesis by (simp add: pow2_def)
qed

lemma round_half: "round_f64 neg (1 / 2) = Num (1 / 2)"
proof -
  have "round_f64 neg (1 / 2) = Num (of_int 4503599627370496 * pow2 (-1 - 52))"
    by (rule round_f64_normal) (simp_all add: pow2_def)
  then show ?thesis by (simp add: pow2_def)
qed

lemma round_1e2: "round_f64 neg 100 = Num 100"
proof -
  have "round_f64 neg 100 = Num (of_int 7036874417766400 * pow2 (6 - 52))"
    by (rule round_f64_normal) (simp_all add: pow2_def)
  then show ?thesis by (simp add: pow2_def)
qed

lemma round_1e5: "round_f64 neg 100000 = Num 100000"
proof -
  have "round_f64 neg 100000 = Num (of_int 6871947673600000 * pow2 (16 - 52))"
    by (rule round_f64_normal) (simp_all add: pow2_def)
  then show ?thesis by (simp add: pow2_def)
qed

lemma round_1e8: "round_f64 neg 100000000 = Num 100000000"
proof -
  have "round_f64 neg 100000000 = Num (of_int 6710886400000000 * pow2 (26 - 52))"
    by (rule round_f64_normal) (simp_all add: pow2_def)
  then show ?thesis by (simp add: pow2_def)
qed

lemma round_50000: "round_f64 neg 50000 = Num 50000"
proof -
  have "round_f64 neg 50000 = Num (of_int 6871947673600000 * pow2 (15 - 52))"
    by (rule round_f64_normal) (simp_all add: pow2_def)
  then show ?thesis by (simp add: pow2_def)
qed

lemma round_a1: "round_f64 neg (123456789 / 1000000000) = Num (8895999182988127 / 72057594037927936)"
proof -
  have "round_f64 neg (123456789 / 1000000000) = Num (of_int 8895999182988127 * pow2 (-4 - 52))"
    by (rule round_f64_normal) (simp_all add: pow2_def)
  then show ?thesis by (simp add: pow2_def)
qed

lemma round_a2: "round_f64 neg (3474999680854737109375 / 281474976710656) = Num (6628035890302157 / 536870912)"
proof -
  have "round_f64 neg (3474999680854737109375 / 281474976710656) = Num (of_int 6628035890302157 * pow2 (23 - 52))"
    by (rule round_f64_normal) (simp_all add: pow2_def)
  then show ?thesis by (simp add: pow2_def)
qed

lemma round_a3: "round_f64 neg (6172839 / 50000000) = Num (8895998534469781 / 72057594037927936)"
proof -
  have "round_f64 neg (6172839 / 50000000) = Num (of_int 8895998534469781 * pow2 (-4 - 52))"
    by (rule round_f64_normal) (simp_all add: pow2_def)
  then show ?thesis by (simp add: pow2_def)
qed

lemma round_b1: "round_f64 neg (99999 / 1000) = Num (3518402024511111 / 35184372088832)"
proof -
  have "round_f64 neg (99999 / 1000) = Num (of_int 7036804049022222 * pow2 (6 - 52))"
    by (rule round_f64_normal) (simp_all add: pow2_def)
  then show ?thesis by (simp add: pow2_def)
qed

lemma round_b2: "round_f64 neg (87960050612777775 / 8796093022208) = Num (5497503163298611 / 549755813888)"
proof -
  have "round_f64 neg (87960050612777775 / 8796093022208) = Num (of_int 5497503163298611 * pow2 (13 - 52))"
    by (rule round_f64_normal) (simp_all add: pow2_def)
  then show ?thesis by (simp add: pow2_def)
qed

lemma round_b3: "round_f64 neg (9999 / 100) = Num (7036170730324623 / 70368744177664)"
proof -
  have "round_f64 neg (9999 / 100) = Num (of_int 7036170730324623 * pow2 (6 - 52))"
    by (rule round_f64_normal) (simp_all add: pow2_def)
  then show ?thesis by (simp add: pow2_def)
qed

lemma round_c1: "round_f64 neg (13699999999999999 / 10000000000000000) = Num (6169931489497579 / 4503599627370496)"
proof -
  have "round_f64 neg (13699999999999999 / 10000000000000000) = Num (of_int 6169931489497579 * pow2 (0 - 52))"
    by (rule round_f64_normal) (simp_all add: pow2_def)
  then show ?thesis by (simp add: pow2_def)
qed

lemma round_c2: "round_f64 neg (154248287237439475 / 1125899906842624) = Num 137"
proof -
  have "round_f64 neg (154248287237439475 / 1125899906842624) = Num (of_int 4820258976169984 * pow2 (7 - 52))"
    by (rule round_f64_normal) (simp_all add: pow2_def)
  then show ?thesis by (simp add: pow2_def)
qed

lemma round_c3: "round_f64 neg (137 / 100) = Num (1542482872374395 / 1125899906842624)"
proof -
  have "round_f64 neg (137 / 100) = Num (of_int 6169931489497580 * pow2 (0 - 52))"
    by (rule round_f64_normal) (simp_all add: pow2_def)
  then show ?thesis by (simp add: pow2_def)
qed

lemma round_c4: "round_f64 neg (34 / 25) = Num (6124895493223875 / 4503599627370496)"
proof -
  have "round_f64 neg (34 / 25) = Num (of_int 6124895493223875 * pow2 (0 - 52))"
    by (rule round_f64_normal) (simp_all add: pow2_def)
  then show ?thesis by (simp add: pow2_def)
qed

lemma Pow10_2: "Pow10 2 = Num 100"
  by (simp add: Pow10_def f64_of_rat_def round_1e2)

lemma Pow10_5: "Pow10 5 = Num 100000"
  by (simp add: Pow10_def f64_of_rat_def round_1e5)

lemma Pow10_8: "Pow10 8 = Num 100000000"
  by (simp add: Pow10_def f64_of_rat_def round_1e8)

section \<open>The example environment, evaluated\<close>

lemma f64_of_rat_1: "f64_of_rat 1 = Num 1"
  by (simp add: f64_of_rat_def round_1)

lemma f64_of_rat_half: "f64_of_rat (1 / 2) = Num (1 / 2)"
  by (simp add: f64_of_rat_def round_half)

lemma ParseFloat_decimal_1: "ParseFloat_decimal ''1'' = Inr (Num 1)"
  by (simp add: ParseFloat_decimal_def digit_def f64_of_rat_1)

lemma ParseFloat_decimal_half: "ParseFloat_decimal ''0.5'' = Inr (Num (1 / 2))"
  by (simp add: ParseFloat_decimal_def digit_def f64_of_rat_half)

lemma truncateOutput_eth_half: "truncateOutput ''eth'' (Num (1 / 2)) = Num (1 / 2)"
  by (simp add: truncateOutput_def decimalPlaces_def Pow10_5 f64_mul_Num round_50000
      f64_div_Num round_half)

lemma f64_div_half_1: "f64_div (Num (1 / 2)) (Num 1) = Num (1 / 2)"
  by (simp add: f64_div_Num round_half)

lemma fetch_example:
  "fetchTokenPrice (env_with (page_showing ''0.5'')) t i ''eth'' ''1'' url =
     Inr (quote_usdc_eth\<lparr>Input_Token := i\<rparr>)"
  by (simp add: fetchTokenPrice_def Let_def env_with_def page_showing_def fallbackProbe_def
      TrimSpace_ascii_def isSpace_def ParseFloat_decimal_1 ParseFloat_decimal_half
      truncateOutput_eth_half f64_div_half_1 quote_usdc_eth_def)

lemma fetch_example_down:
  "fetchTokenPrice (env_with page_down) t i out a url = Inl ''context deadline exceeded''"
  by (simp add: fetchTokenPrice_def env_with_def page_down_def)

lemma Query_request:
  "Query (request i out a) ''input'' = i"
  "Query (request i out a) ''output'' = out"
  "Query (request i out a) ''amount'' = a"
  by (simp_all add: Query_def request_def)

lemma Get_empty: "TokenPairCache_Get NewTokenPairCache i out a t = (Result_zero, False)"
  by (simp add: TokenPairCache_Get_def NewTokenPairCache_def)

lemma Set_not_empty: "TokenPairCache_Set c i out a r t \<noteq> NewTokenPairCache"
proof
  assume "TokenPairCache_Set c i out a r t = NewTokenPairCache"
  then have "TokenPairCache_Set c i out a r t i = NewTokenPairCache i" by simp
  then show False by (simp add: TokenPairCache_Set_def Let_def NewTokenPairCache_def)
qed

lemma tokenAddresses_simps:
  "tokenAddresses ''usdc'' = Some USDC_ADDRESS"
  "tokenAddresses ''usdt'' = Some USDT_ADDRESS"
  "tokenAddresses ''eth'' = Some WETH_ADDRESS"
  "tokenAddresses ''mon'' = Some MON_ADDRESS"
  "tokenAddresses ''wmon'' = Some MON_ADDRESS"
  "tokenAddresses ''doge'' = None"
  by (simp_all add: tokenAddresses_def)

lemma handle_example:
  "i = ''usdc'' \<or> i = ''usdt'' \<Longrightarrow>
   handleTokenPrice (env_with (page_showing ''0.5'')) clock0 NewTokenPairCache
       (request i ''eth'' ''1'') =
     (\<lparr>status = 200, body = ResultJSON (quote_usdc_eth\<lparr>Input_Token := i\<rparr>)\<rparr>,
      TokenPairCache_Set NewTokenPairCache i ''eth'' ''1'' (quote_usdc_eth\<lparr>Input_Token := i\<rparr>) 6001)"
  by (auto simp add: handleTokenPrice_def Query_request tokenAddresses_simps Get_empty
      fetch_example status_defs clock0_def)

lemma handle_example_down:
  "handleTokenPrice (env_with page_down) clock0 NewTokenPairCache (request ''usdc'' ''eth'' ''1'') =
     (\<lparr>status = 500, body = ErrorJSON ''context deadline exceeded''\<rparr>, NewTokenPairCache)"
  by (simp add: handleTokenPrice_def Query_request tokenAddresses_simps Get_empty
      fetch_example_down status_defs)

section \<open>Properties of the scrape pipeline\<close>



text \<open>
  C6. In the result of a successful fetch whose parsed input amount is not a zero, the
  exchange rate is the float64 quotient of the truncated output amount by the parsed
  input amount: the two amounts are the ones parsed from the page (the output after
  truncation), and for finite amounts the quotient is the exact one rounded to binary64.
\<close>

theorem exchange_rate_quotient:
  assumes "fetchTokenPrice env now i out a url = Inr r" and "\<not> is_zero (Input_Amount r)"
  shows "\<exists>inputRead outputRead fallback parsed.
           Run env url a = RunRead inputRead outputRead fallback \<and>
           ParseFloat env (TrimSpace env inputRead) = Inr (Input_Amount r) \<and>
           ParseFloat env (TrimSpace env (fallbackProbe outputRead fallback)) = Inr parsed \<and>
           Output_Amount r = truncateOutput out parsed \<and>
           ExchangeRate r = f64_div (Output_Amount r) (Input_Amount r) \<and>
           (\<forall>x y. Output_Amount r = Num x \<and> Input_Amount r = Num y \<longrightarrow>
              ExchangeRate r = round_f64 ((x < 0) \<noteq> (y < 0)) (x / y))"
proof -
  from assms(1) obtain inputRead outputRead fallback inputAmount parsed where
    run: "Run env url a = RunRead inputRead outputRead fallback"
    and pin: "ParseFloat env (TrimSpace env inputRead) = Inr inputAmount"
    and pout: "ParseFloat env (TrimSpace env (fallbackProbe outputRead fallback)) = Inr parsed"
    and r: "r = \<lparr>Input_Amount = inputAmount, Input_Token = i,
          Output_Amount = truncateOutput out parsed, Output_Token = out,
          ExchangeRate = f64_div (truncateOutput out parsed) inputAmount,
          Timestamp = Format env now\<rparr>"
    by (rule fetchTokenPrice_Inr)
  have rate: "ExchangeRate r = f64_div (Output_Amount r) (Input_Amount r)"
    by (simp add: r)
  have exact: "ExchangeRate r = round_f64 ((x < 0) \<noteq> (y < 0)) (x / y)"
    if "Output_Amount r = Num x \<and> Input_Amount r = Num y" for x y
  proof -
    from that assms(2) have "y \<noteq> 0" by auto
    then show ?thesis using that rate by (simp add: f64_div_Num)
  qed
  from run pin pout rate exact show ?thesis
    by (intro exI conjI allI impI) (simp_all add: r)
qed

theorem exchange_rate_quotient_witness:
  "fetchTokenPrice (env_with (page_showing ''0.5'')) 6000 ''usdc'' ''eth'' ''1''
      (targetURL USDC_ADDRESS WETH_ADDRESS) = Inr quote_usdc_eth \<and>
   \<not> is_zero (Input_Amount quote_usdc_eth) \<and>
   ExchangeRate quote_usdc_eth =
     f64_div (Output_Amount quote_usdc_eth) (Input_Amount quote_usdc_eth) \<and>
   ExchangeRate quote_usdc_eth = round_f64 False (1 / 2)"
proof -
  have f: "fetchTokenPrice (env_with (page_showing ''0.5'')) 6000 ''usdc'' ''eth'' ''1''
      (targetURL USDC_ADDRESS WETH_ADDRESS) = Inr quote_usdc_eth"
    using fetch_example [of 6000 "''usdc''"] by (simp add: quote_usdc_eth_def)
  have nz: "\<not> is_zero (Input_Amount quote_usdc_eth)"
    by (simp add: quote_usdc_eth_def)
  from exchange_rate_quotient [OF f nz]
  have "ExchangeRate quote_usdc_eth =
          f64_div (Output_Amount quote_usdc_eth) (Input_Amount quote_usdc_eth) \<and>
        (\<forall>x y. Output_Amount quote_usdc_eth = Num x \<and> Input_Amount quote_usdc_eth = Num y \<longrightarrow>
           ExchangeRate quote_usdc_eth = round_f64 ((x < 0) \<noteq> (y < 0)) (x / y))"
    by blast
  then have "ExchangeRate quote_usdc_eth =
          f64_div (Output_Amount quote_usdc_eth) (Input_Amount quote_usdc_eth) \<and>
        ExchangeRate quote_usdc_eth = round_f64 False (1 / 2)"
    by (simp add: quote_usdc_eth_def)
  with f nz show ?thesis by blast
qed

section \<open>Truncation of the output amount\<close>

lemma decimalPlaces_range: "decimalPlaces tok = 2 \<or> decimalPlaces tok = 5 \<or> decimalPlaces tok = 8"
  by (simp add: decimalPlaces_def)

text \<open>The factor is the power of ten itself: 100, 100000 and 100000000 are binary64 values.\<close>

lemma Pow10_decimalPlaces: "Pow10 (decimalPlaces tok) = Num (10 ^ decimalPlaces tok)"
  using decimalPlaces_range [of tok] by (auto simp: Pow10_2 Pow10_5 Pow10_8)

lemma round_f64_flag: "q \<noteq> 0 \<Longrightarrow> round_f64 neg q = round_f64 neg' q"
  by (simp add: round_f64_def)

lemma truncateOutput_formula:
  "truncateOutput tok v =
     f64_div (Floor (f64_mul v (Num (10 ^ decimalPlaces tok)))) (Num (10 ^ decimalPlaces tok))"
  by (simp add: truncateOutput_def Let_def Pow10_decimalPlaces)

text \<open>
  When rounding the product to binary64 does not move it across an integer, the result is
  the binary64 nearest to the exact floor at that many places.
\<close>

lemma truncateOutput_exact:
  assumes "f64_mul (Num x) (Num (10 ^ decimalPlaces tok)) = Num y"
    and "\<lfloor>y\<rfloor> = \<lfloor>x * 10 ^ decimalPlaces tok\<rfloor>"
  shows "truncateOutput tok (Num x) =
           f64_of_rat (of_int \<lfloor>x * 10 ^ decimalPlaces tok\<rfloor> / 10 ^ decimalPlaces tok)"
proof -
  define d where "d = decimalPlaces tok"
  define n where "n = \<lfloor>x * 10 ^ d\<rfloor>"
  have ny: "n = \<lfloor>y\<rfloor>" using assms(2) by (simp add: n_def d_def)
  have fl: "Floor (Num y) = Num (of_int n)"
  proof (cases "y = 0")
    case True
    then have "n = 0" using ny by simp
    with True show ?thesis by simp
  next
    case False
    then show ?thesis using ny by simp
  qed
  have ten: "(10 ^ d :: rat) \<noteq> 0" "\<not> (10 ^ d :: rat) < 0" by simp_all
  have "truncateOutput tok (Num x) = f64_div (Num (of_int n)) (Num (10 ^ d))"
    using assms(1) fl by (simp add: truncateOutput_formula d_def)
  also have "\<dots> = round_f64 (n < 0) (of_int n / 10 ^ d)"
    using ten by (simp add: f64_div_Num)
  also have "\<dots> = round_f64 False (of_int n / 10 ^ d)"
  proof (cases "n = 0")
    case True
    then show ?thesis by simp
  next
    case False
    then have "(of_int n / 10 ^ d :: rat) \<noteq> 0" by simp
    then show ?thesis by (rule round_f64_flag)
  qed
  finally show ?thesis by (simp add: f64_of_rat_def n_def d_def)
qed

lemma floor_a2: "\<lfloor>6628035890302157 / 536870912 :: rat\<rfloor> = 12345678"
  by (simp add: floor_eq_iff)

lemma floor_b2: "\<lfloor>5497503163298611 / 549755813888 :: rat\<rfloor> = 9999"
  by (simp add: floor_eq_iff)

lemma floor_b2_exact: "\<lfloor>87960050612777775 / 8796093022208 :: rat\<rfloor> = 9999"
  by (simp add: floor_eq_iff)

lemma floor_c2_exact: "\<lfloor>154248287237439475 / 1125899906842624 :: rat\<rfloor> = 136"
  by (simp add: floor_eq_iff)

lemma truncate_lbtc_example:
  "truncateOutput ''lbtc'' (f64_of_rat (123456789 / 1000000000)) =
     f64_of_rat (12345678 / 100000000)"
  by (simp add: truncateOutput_def decimalPlaces_def Pow10_8 f64_of_rat_def round_a1
      f64_mul_Num round_a2 floor_a2 f64_div_Num round_a3)

lemma truncate_usdc_example:
  "truncateOutput ''usdc'' (f64_of_rat (99999 / 1000)) = f64_of_rat (9999 / 100)"
  by (simp add: truncateOutput_def decimalPlaces_def Pow10_2 f64_of_rat_def round_b1
      f64_mul_Num round_b2 floor_b2 f64_div_Num round_b3)

lemma truncate_usdc_up:
  "truncateOutput ''usdc'' (Num (6169931489497579 / 4503599627370496)) =
     Num (1542482872374395 / 1125899906842624)"
  by (simp add: truncateOutput_def decimalPlaces_def Pow10_2 f64_mul_Num round_c2
      f64_div_Num round_c3)

text \<open>
  C2, as the code has it. The number of places is 8 for lbtc and wbtc, 5 for eth, 2 for
  usdc, usdt and every other symbol. The output amount of a successful fetch is
  \<open>Floor (v * 10 ^ d) / 10 ^ d\<close> computed in float64 from the parsed value \<open>v\<close>.
  For a finite \<open>v\<close> whose float64 product with \<open>10 ^ d\<close> has the integer part of the
  exact product, that is the float64 nearest to the exact floor of \<open>v\<close> at \<open>d\<close> places.
  The value nearest to 0.123456789 gives, for lbtc, the value nearest to 0.12345678, and
  the value nearest to 99.999 gives, for usdc, the value nearest to 99.99.
\<close>

theorem truncateOutput_places:
  "decimalPlaces ''lbtc'' = 8 \<and> decimalPlaces ''wbtc'' = 8 \<and> decimalPlaces ''eth'' = 5 \<and>
   decimalPlaces ''usdc'' = 2 \<and> decimalPlaces ''usdt'' = 2 \<and>
   (tok \<noteq> ''lbtc'' \<and> tok \<noteq> ''wbtc'' \<and> tok \<noteq> ''eth'' \<longrightarrow> decimalPlaces tok = 2) \<and>
   (fetchTokenPrice env now i tok a url = Inr r \<longrightarrow>
      (\<exists>inputRead outputRead fallback parsed.
         Run env url a = RunRead inputRead outputRead fallback \<and>
         ParseFloat env (TrimSpace env (fallbackProbe outputRead fallback)) = Inr parsed \<and>
         Output_Amount r = truncateOutput tok parsed)) \<and>
   truncateOutput tok v =
     f64_div (Floor (f64_mul v (Num (10 ^ decimalPlaces tok)))) (Num (10 ^ decimalPlaces tok)) \<and>
   (f64_mul (Num x) (Num (10 ^ decimalPlaces tok)) = Num y \<and>
    \<lfloor>y\<rfloor> = \<lfloor>x * 10 ^ decimalPlaces tok\<rfloor> \<longrightarrow>
      truncateOutput tok (Num x) =
        f64_of_rat (of_int \<lfloor>x * 10 ^ decimalPlaces tok\<rfloor> / 10 ^ decimalPlaces tok)) \<and>
   truncateOutput ''lbtc'' (f64_of_rat (123456789 / 1000000000)) =
     f64_of_rat (12345678 / 100000000) \<and>
   truncateOutput ''usdc'' (f64_of_rat (99999 / 1000)) = f64_of_rat (9999 / 100)"
proof -
  have table: "decimalPlaces ''lbtc'' = 8 \<and> decimalPlaces ''wbtc'' = 8 \<and>
      decimalPlaces ''eth'' = 5 \<and> decimalPlaces ''usdc'' = 2 \<and> decimalPlaces ''usdt'' = 2"
    by (simp add: decimalPlaces_def)
  have other: "tok \<noteq> ''lbtc'' \<and> tok \<noteq> ''wbtc'' \<and> tok \<noteq> ''eth'' \<longrightarrow> decimalPlaces tok = 2"
    by (simp add: decimalPlaces_def)
  have fetched: "\<exists>inputRead outputRead fallback parsed.
         Run env url a = RunRead inputRead outputRead fallback \<and>
         ParseFloat env (TrimSpace env (fallbackProbe outputRead fallback)) = Inr parsed \<and>
         Output_Amount r = truncateOutput tok parsed"
    if "fetchTokenPrice env now i tok a url = Inr r"
    using that by (rule fetchTokenPrice_Inr) auto
  show ?thesis
    using table other fetched truncateOutput_formula [of tok v] truncateOutput_exact [of x tok y]
      truncate_lbtc_example truncate_usdc_example
    by blast
qed

theorem truncateOutput_places_witness:
  "fetchTokenPrice (env_with (page_showing ''0.5'')) 6000 ''usdc'' ''eth'' ''1''
      (targetURL USDC_ADDRESS WETH_ADDRESS) = Inr quote_usdc_eth \<and>
   Output_Amount quote_usdc_eth = truncateOutput ''eth'' (Num (1 / 2)) \<and>
   decimalPlaces ''dak'' = 2 \<and>
   f64_mul (Num (3518402024511111 / 35184372088832)) (Num (10 ^ decimalPlaces ''usdc'')) =
     Num (5497503163298611 / 549755813888) \<and>
   \<lfloor>5497503163298611 / 549755813888 :: rat\<rfloor> =
     \<lfloor>3518402024511111 / 35184372088832 * 10 ^ decimalPlaces ''usdc'' :: rat\<rfloor> \<and>
   truncateOutput ''usdc'' (Num (3518402024511111 / 35184372088832)) = f64_of_rat (9999 / 100)"
proof -
  let ?env = "env_with (page_showing ''0.5'')"
  let ?url = "targetURL USDC_ADDRESS WETH_ADDRESS"
  have f: "fetchTokenPrice ?env 6000 ''usdc'' ''eth'' ''1'' ?url = Inr quote_usdc_eth"
    using fetch_example [of 6000 "''usdc''"] by (simp add: quote_usdc_eth_def)
  have dak: "''dak'' \<noteq> ''lbtc'' \<and> ''dak'' \<noteq> ''wbtc'' \<and> ''dak'' \<noteq> ''eth''" by simp
  have d: "decimalPlaces ''usdc'' = 2" by (simp add: decimalPlaces_def)
  have m: "f64_mul (Num (3518402024511111 / 35184372088832)) (Num (10 ^ decimalPlaces ''usdc'')) =
     Num (5497503163298611 / 549755813888)"
    by (simp add: d f64_mul_Num round_b2)
  have fl: "\<lfloor>5497503163298611 / 549755813888 :: rat\<rfloor> =
     \<lfloor>3518402024511111 / 35184372088832 * 10 ^ decimalPlaces ''usdc'' :: rat\<rfloor>"
    by (simp add: d floor_b2 floor_b2_exact)
  note s = truncateOutput_places [where tok = "''eth''" and env = ?env and now = 6000
      and i = "''usdc''" and a = "''1''" and url = ?url and r = quote_usdc_eth]
  note t = truncateOutput_places [where tok = "''dak''"]
  note u = truncateOutput_places [where tok = "''usdc''"
      and x = "3518402024511111 / 35184372088832" and y = "5497503163298611 / 549755813888"]
  from s f obtain inputRead outputRead fallback parsed where
    run: "Run ?env ?url ''1'' = RunRead inputRead outputRead fallback"
    and parsed: "ParseFloat ?env (TrimSpace ?env (fallbackProbe outputRead fallback)) = Inr parsed"
    and out: "Output_Amount quote_usdc_eth = truncateOutput ''eth'' parsed"
    by blast
  from run have "outputRead = ''0.5''" "fallback = Inl ''TypeError: null has no value''"
    by (simp_all add: env_with_def page_showing_def)
  with parsed have "parsed = Num (1 / 2)"
    by (simp add: env_with_def fallbackProbe_def TrimSpace_ascii_def isSpace_def
        ParseFloat_decimal_half)
  with out have 0: "Output_Amount quote_usdc_eth = truncateOutput ''eth'' (Num (1 / 2))"
    by simp
  from t dak have 1: "decimalPlaces ''dak'' = 2" by blast
  from u m fl have "truncateOutput ''usdc'' (Num (3518402024511111 / 35184372088832)) =
      f64_of_rat
        (of_int \<lfloor>3518402024511111 / 35184372088832 * 10 ^ decimalPlaces ''usdc'' :: rat\<rfloor>
          / 10 ^ decimalPlaces ''usdc'')"
    by blast
  then have 2: "truncateOutput ''usdc'' (Num (3518402024511111 / 35184372088832)) =
      f64_of_rat (9999 / 100)"
    by (simp add: d floor_b2_exact)
  from f 0 1 m fl 2 show ?thesis by blast
qed

text \<open>
  C2 as stated fails: float64 rounds the product up. The page text "1.3699999999999999"
  parses to the binary64 just below 1.37; times 100 the exact product lies below 137, with
  floor 136, but rounds to 137.0, so for usdc the output amount is the binary64 nearest to
  1.37, above the parsed value, where flooring at two places gives 1.36.
\<close>

theorem truncateOutput_rounds_up_counterexample:
  "ParseFloat_decimal ''1.3699999999999999'' =
     Inr (Num (6169931489497579 / 4503599627370496)) \<and>
   truncateOutput ''usdc'' (Num (6169931489497579 / 4503599627370496)) =
     Num (1542482872374395 / 1125899906842624) \<and>
   map_sum id Output_Amount
     (fetchTokenPrice (env_with (page_showing ''1.3699999999999999'')) 6000 ''eth'' ''usdc'' ''1''
        (targetURL WETH_ADDRESS USDC_ADDRESS)) =
     Inr (Num (1542482872374395 / 1125899906842624)) \<and>
   (6169931489497579 / 4503599627370496 :: rat) < 1542482872374395 / 1125899906842624 \<and>
   f64_of_rat (137 / 100) = Num (1542482872374395 / 1125899906842624) \<and>
   \<lfloor>6169931489497579 / 4503599627370496 * 10 ^ 2 :: rat\<rfloor> = 136 \<and>
   truncateOutput ''usdc'' (Num (6169931489497579 / 4503599627370496)) \<noteq> f64_of_rat (136 / 100)"
proof -
  have p: "ParseFloat_decimal ''1.3699999999999999'' =
      Inr (Num (6169931489497579 / 4503599627370496))"
    by (simp add: ParseFloat_decimal_def digit_def f64_of_rat_def round_c1)
  have e: "map_sum id Output_Amount
     (fetchTokenPrice (env_with (page_showing ''1.3699999999999999'')) 6000 ''eth'' ''usdc'' ''1''
        (targetURL WETH_ADDRESS USDC_ADDRESS)) =
     Inr (Num (1542482872374395 / 1125899906842624))"
    by (simp add: fetchTokenPrice_def Let_def env_with_def page_showing_def fallbackProbe_def
        TrimSpace_ascii_def isSpace_def ParseFloat_decimal_1 p truncate_usdc_up)
  have lt: "(6169931489497579 / 4503599627370496 :: rat) < 1542482872374395 / 1125899906842624"
    by simp
  have n: "f64_of_rat (137 / 100) = Num (1542482872374395 / 1125899906842624)"
    by (simp add: f64_of_rat_def round_c3)
  have fl: "\<lfloor>6169931489497579 / 4503599627370496 * 10 ^ 2 :: rat\<rfloor> = 136"
    by (simp add: floor_c2_exact)
  have ne: "truncateOutput ''usdc'' (Num (6169931489497579 / 4503599627370496)) \<noteq>
      f64_of_rat (136 / 100)"
    by (simp add: truncate_usdc_up f64_of_rat_def round_c4)
  from p truncate_usdc_up e lt n fl ne show ?thesis by blast
qed

section \<open>Properties of the request handler\<close>

lemma sublist_after: "sublist xs (ps @ xs)"
  unfolding sublist_def by (rule exI [of _ ps], rule exI [of _ "[]"]) simp

text \<open>
  C7. The handler answers 400 exactly when one of \<open>input\<close>, \<open>output\<close>, \<open>amount\<close> is
  missing (\<open>c.Query\<close> gives the empty string: the parameter is absent, or present with
  an empty value), or one of the two symbols is not in the registry; a 400 carries an
  error message; an absent parameter gives 400 whatever the others are; and for an unknown
  symbol the message ends with the symbol: the input one if it is unknown, else the output
  one.
\<close>

theorem bad_request_iff:
  "(status (fst (handleTokenPrice env clk cache q)) = 400 \<longleftrightarrow>
      (Query q ''input'' = '''' \<or> Query q ''output'' = '''' \<or> Query q ''amount'' = '''' \<or>
       tokenAddresses (Query q ''input'') = None \<or> tokenAddresses (Query q ''output'') = None)) \<and>
   (status (fst (handleTokenPrice env clk cache q)) = 400 \<longrightarrow>
      (\<exists>msg. body (fst (handleTokenPrice env clk cache q)) = ErrorJSON msg)) \<and>
   (q ''input'' = None \<or> q ''output'' = None \<or> q ''amount'' = None \<longrightarrow>
      status (fst (handleTokenPrice env clk cache q)) = 400) \<and>
   (Query q ''input'' \<noteq> '''' \<and> Query q ''output'' \<noteq> '''' \<and> Query q ''amount'' \<noteq> '''' \<and>
    tokenAddresses (Query q ''input'') = None \<longrightarrow>
      body (fst (handleTokenPrice env clk cache q)) =
        ErrorJSON (''unsupported input token: '' @ Query q ''input'') \<and>
      sublist (Query q ''input'') (''unsupported input token: '' @ Query q ''input'')) \<and>
   (Query q ''input'' \<noteq> '''' \<and> Query q ''output'' \<noteq> '''' \<and> Query q ''amount'' \<noteq> '''' \<and>
    tokenAddresses (Query q ''input'') \<noteq> None \<and> tokenAddresses (Query q ''output'') = None \<longrightarrow>
      body (fst (handleTokenPrice env clk cache q)) =
        ErrorJSON (''unsupported output token: '' @ Query q ''output'') \<and>
      sublist (Query q ''output'') (''unsupported output token: '' @ Query q ''output''))"
proof (intro conjI impI)
  show "status (fst (handleTokenPrice env clk cache q)) = 400 \<longleftrightarrow>
      (Query q ''input'' = '''' \<or> Query q ''output'' = '''' \<or> Query q ''amount'' = '''' \<or>
       tokenAddresses (Query q ''input'') = None \<or> tokenAddresses (Query q ''output'') = None)"
    by (rule handle_status_400)
  show "\<exists>msg. body (fst (handleTokenPrice env clk cache q)) = ErrorJSON msg"
    if "status (fst (handleTokenPrice env clk cache q)) = 400"
    using that by (rule handle_400_body)
  show "status (fst (handleTokenPrice env clk cache q)) = 400"
    if "q ''input'' = None \<or> q ''output'' = None \<or> q ''amount'' = None"
    using that Query_absent [of q] by (auto simp: handle_status_400)
  show "body (fst (handleTokenPrice env clk cache q)) =
        ErrorJSON (''unsupported input token: '' @ Query q ''input'')"
    if "Query q ''input'' \<noteq> '''' \<and> Query q ''output'' \<noteq> '''' \<and> Query q ''amount'' \<noteq> '''' \<and>
        tokenAddresses (Query q ''input'') = None"
    using that by (simp add: handle_unknown_input)
  show "body (fst (handleTokenPrice env clk cache q)) =
        ErrorJSON (''unsupported output token: '' @ Query q ''output'')"
    if "Query q ''input'' \<noteq> '''' \<and> Query q ''output'' \<noteq> '''' \<and> Query q ''amount'' \<noteq> '''' \<and>
        tokenAddresses (Query q ''input'') \<noteq> None \<and> tokenAddresses (Query q ''output'') = None"
    using that by (simp add: handle_unknown_output)
qed (rule sublist_after)+

theorem bad_request_iff_witness:
  "status (fst (handleTokenPrice (env_with page_down) clock0 NewTokenPairCache
      (request ''doge'' ''eth'' ''1''))) = 400 \<and>
   body (fst (handleTokenPrice (env_with page_down) clock0 NewTokenPairCache
      (request ''doge'' ''eth'' ''1''))) = ErrorJSON ''unsupported input token: doge'' \<and>
   sublist ''doge'' ''unsupported input token: doge'' \<and>
   status (fst (handleTokenPrice (env_with page_down) clock0 NewTokenPairCache
      (request ''usdc'' ''doge'' ''1''))) = 400 \<and>
   body (fst (handleTokenPrice (env_with page_down) clock0 NewTokenPairCache
      (request ''usdc'' ''doge'' ''1''))) = ErrorJSON ''unsupported output token: doge'' \<and>
   status (fst (handleTokenPrice (env_with page_down) clock0 NewTokenPairCache
      [''input'' \<mapsto> ''usdc'', ''output'' \<mapsto> ''eth''])) = 400 \<and>
   (\<exists>msg. body (fst (handleTokenPrice (env_with page_down) clock0 NewTokenPairCache
      [''input'' \<mapsto> ''usdc'', ''output'' \<mapsto> ''eth''])) = ErrorJSON msg) \<and>
   status (fst (handleTokenPrice (env_with page_down) clock0 NewTokenPairCache
      (request ''usdc'' ''eth'' ''1''))) \<noteq> 400"
proof -
  let ?h = "handleTokenPrice (env_with page_down) clock0 NewTokenPairCache"
  let ?in = "request ''doge'' ''eth'' ''1''"
  let ?out = "request ''usdc'' ''doge'' ''1''"
  let ?short = "[''input'' \<mapsto> ''usdc'', ''output'' \<mapsto> ''eth'']"
  let ?good = "request ''usdc'' ''eth'' ''1''"
  have doge_in: "Query ?in ''input'' \<noteq> '''' \<and> Query ?in ''output'' \<noteq> '''' \<and>
      Query ?in ''amount'' \<noteq> '''' \<and> tokenAddresses (Query ?in ''input'') = None"
    by (simp add: Query_request tokenAddresses_simps)
  have doge_out: "Query ?out ''input'' \<noteq> '''' \<and> Query ?out ''output'' \<noteq> '''' \<and>
      Query ?out ''amount'' \<noteq> '''' \<and> tokenAddresses (Query ?out ''input'') \<noteq> None \<and>
      tokenAddresses (Query ?out ''output'') = None"
    by (simp add: Query_request tokenAddresses_simps)
  have absent: "?short ''input'' = None \<or> ?short ''output'' = None \<or> ?short ''amount'' = None"
    by simp
  have good: "\<not> (Query ?good ''input'' = '''' \<or> Query ?good ''output'' = '''' \<or>
      Query ?good ''amount'' = '''' \<or> tokenAddresses (Query ?good ''input'') = None \<or>
      tokenAddresses (Query ?good ''output'') = None)"
    by (simp add: Query_request tokenAddresses_simps)
  note t1 = bad_request_iff [of "env_with page_down" clock0 NewTokenPairCache ?in]
  note t2 = bad_request_iff [of "env_with page_down" clock0 NewTokenPairCache ?out]
  note t3 = bad_request_iff [of "env_with page_down" clock0 NewTokenPairCache ?short]
  note t4 = bad_request_iff [of "env_with page_down" clock0 NewTokenPairCache ?good]
  from t1 doge_in have 1: "status (fst (?h ?in)) = 400"
    and 2: "body (fst (?h ?in)) = ErrorJSON (''unsupported input token: '' @ Query ?in ''input'')"
    and 3: "sublist (Query ?in ''input'') (''unsupported input token: '' @ Query ?in ''input'')"
    by blast+
  from t2 doge_out have 4: "status (fst (?h ?out)) = 400"
    by (elim conjE) simp
  from t2 doge_out have 5: "body (fst (?h ?out)) =
        ErrorJSON (''unsupported output token: '' @ Query ?out ''output'')"
    by (elim conjE) simp
  from t3 absent have 6: "status (fst (?h ?short)) = 400"
    by blast
  with t3 have 7: "\<exists>msg. body (fst (?h ?short)) = ErrorJSON msg"
    by blast
  from t4 good have 8: "status (fst (?h ?good)) \<noteq> 400"
    by blast
  from 1 2 3 4 5 6 7 8 show ?thesis by (simp add: Query_request)
qed

text \<open>
  C8. When the fetcher fails, the handler answers 500 with the fetcher's error message as
  it is, and the cache is the one before the request. A request changes the cache only
  when its fetch succeeded: the cache is then the old one with the quote set under the
  request's triple, and the answer is 200 with that quote.
\<close>

theorem fetch_failure_500:
  "(Query q ''input'' \<noteq> '''' \<and> Query q ''output'' \<noteq> '''' \<and> Query q ''amount'' \<noteq> '''' \<and>
    tokenAddresses (Query q ''input'') = Some fromAddress \<and>
    tokenAddresses (Query q ''output'') = Some toAddress \<and>
    snd (TokenPairCache_Get cache (Query q ''input'') (Query q ''output'') (Query q ''amount'')
          (atGet clk)) = False \<and>
    fetchTokenPrice env (atStamp clk) (Query q ''input'') (Query q ''output'') (Query q ''amount'')
      (targetURL fromAddress toAddress) = Inl err \<longrightarrow>
      handleTokenPrice env clk cache q =
        (\<lparr>status = 500, body = ErrorJSON err\<rparr>, cache)) \<and>
   (snd (handleTokenPrice env clk cache q) \<noteq> cache \<longrightarrow>
      (\<exists>src dst r.
         tokenAddresses (Query q ''input'') = Some src \<and>
         tokenAddresses (Query q ''output'') = Some dst \<and>
         fetchTokenPrice env (atStamp clk) (Query q ''input'') (Query q ''output'')
           (Query q ''amount'') (targetURL src dst) = Inr r \<and>
         handleTokenPrice env clk cache q =
           (\<lparr>status = 200, body = ResultJSON r\<rparr>,
            TokenPairCache_Set cache (Query q ''input'') (Query q ''output'') (Query q ''amount'') r
              (atSet clk))))"
  using handle_fetch_failed [of q fromAddress toAddress cache clk env err]
    handle_cache_changed [of env clk cache q]
  by blast

theorem fetch_failure_500_witness:
  "fetchTokenPrice (env_with page_down) (atStamp clock0) ''usdc'' ''eth'' ''1''
      (targetURL USDC_ADDRESS WETH_ADDRESS) = Inl ''context deadline exceeded'' \<and>
   handleTokenPrice (env_with page_down) clock0 NewTokenPairCache (request ''usdc'' ''eth'' ''1'') =
     (\<lparr>status = 500, body = ErrorJSON ''context deadline exceeded''\<rparr>, NewTokenPairCache) \<and>
   snd (handleTokenPrice (env_with (page_showing ''0.5'')) clock0 NewTokenPairCache
          (request ''usdc'' ''eth'' ''1'')) \<noteq> NewTokenPairCache \<and>
   status (fst (handleTokenPrice (env_with (page_showing ''0.5'')) clock0 NewTokenPairCache
          (request ''usdc'' ''eth'' ''1''))) = 200"
proof -
  let ?q = "request ''usdc'' ''eth'' ''1''"
  have f: "fetchTokenPrice (env_with page_down) (atStamp clock0) ''usdc'' ''eth'' ''1''
      (targetURL USDC_ADDRESS WETH_ADDRESS) = Inl ''context deadline exceeded''"
    by (rule fetch_example_down)
  have h: "Query ?q ''input'' \<noteq> '''' \<and> Query ?q ''output'' \<noteq> '''' \<and> Query ?q ''amount'' \<noteq> '''' \<and>
    tokenAddresses (Query ?q ''input'') = Some USDC_ADDRESS \<and>
    tokenAddresses (Query ?q ''output'') = Some WETH_ADDRESS \<and>
    snd (TokenPairCache_Get NewTokenPairCache (Query ?q ''input'') (Query ?q ''output'')
          (Query ?q ''amount'') (atGet clock0)) = False \<and>
    fetchTokenPrice (env_with page_down) (atStamp clock0) (Query ?q ''input'') (Query ?q ''output'')
      (Query ?q ''amount'') (targetURL USDC_ADDRESS WETH_ADDRESS) = Inl ''context deadline exceeded''"
    using f by (simp add: Query_request tokenAddresses_simps Get_empty)
  note t = fetch_failure_500 [of ?q USDC_ADDRESS WETH_ADDRESS NewTokenPairCache clock0
      "env_with page_down" "''context deadline exceeded''"]
  from t h have 1: "handleTokenPrice (env_with page_down) clock0 NewTokenPairCache ?q =
     (\<lparr>status = 500, body = ErrorJSON ''context deadline exceeded''\<rparr>, NewTokenPairCache)"
    by blast
  have changed: "snd (handleTokenPrice (env_with (page_showing ''0.5'')) clock0 NewTokenPairCache ?q)
      \<noteq> NewTokenPairCache"
    using handle_example [of "''usdc''"] by (simp add: Set_not_empty)
  note u = fetch_failure_500 [where q = ?q and cache = NewTokenPairCache and clk = clock0
      and env = "env_with (page_showing ''0.5'')"]
  from u changed obtain r where
    "handleTokenPrice (env_with (page_showing ''0.5'')) clock0 NewTokenPairCache ?q =
       (\<lparr>status = 200, body = ResultJSON r\<rparr>,
        TokenPairCache_Set NewTokenPairCache (Query ?q ''input'') (Query ?q ''output'')
          (Query ?q ''amount'') r (atSet clock0))"
    by blast
  then have 2: "status (fst (handleTokenPrice (env_with (page_showing ''0.5'')) clock0
      NewTokenPairCache ?q)) = 200"
    by simp
  from f 1 changed 2 show ?thesis by blast
qed

section \<open>Aliased symbols\<close>

lemma labelled_empty: "labelled NewTokenPairCache"
  by (simp add: labelled_def stored_def NewTokenPairCache_def)

lemma labelled_Set:
  assumes "labelled c" "Input_Token r = i" "Output_Token r = out"
  shows "labelled (TokenPairCache_Set c i out a r t)"
  unfolding labelled_def
proof (intro allI impI)
  fix i' out' a' e
  assume s: "stored (TokenPairCache_Set c i out a r t) i' out' a' = Some e"
  show "Input_Token (Result e) = i' \<and> Output_Token (Result e) = out'"
  proof (cases "(i', out', a') = (i, out, a)")
    case True
    with s have "e = \<lparr>Result = r, ExpiresAt = t + CACHE_TTL\<rparr>"
      by (simp add: stored_Set_same)
    with True assms(2,3) show ?thesis by simp
  next
    case False
    with s have "stored c i' out' a' = Some e" by (simp add: stored_Set_other)
    with assms(1) show ?thesis unfolding labelled_def by blast
  qed
qed

lemma Get_hit_stored:
  "TokenPairCache_Get c i out a now = (r, True) \<Longrightarrow>
     \<exists>e. stored c i out a = Some e \<and> Result e = r"
  by (auto simp: Get_stored split: option.splits if_splits)

lemma handle_labelled:
  assumes "labelled cache"
  shows "labelled (snd (handleTokenPrice env clk cache q))"
proof (cases rule: handle_cases [of q env clk cache])
  case (fetched fromAddress toAddress r)
  from fetched(7) have "Input_Token r = Query q ''input'' \<and> Output_Token r = Query q ''output''"
    by (rule fetchTokenPrice_tokens)
  with assms fetched(8) show ?thesis by (simp add: labelled_Set)
qed (use assms in simp_all)

lemma serve_labelled: "labelled cache \<Longrightarrow> labelled (serve history cache)"
proof (induction history arbitrary: cache)
  case Nil
  then show ?case by simp
next
  case (Cons h history)
  obtain env clk q where h: "h = (env, clk, q)" by (cases h)
  from Cons.prems have "labelled (snd (handleTokenPrice env clk cache q))"
    by (rule handle_labelled)
  then show ?case unfolding h by (simp add: Cons.IH)
qed

lemma handle_tokens_as_submitted:
  assumes "labelled cache" "body (fst (handleTokenPrice env clk cache q)) = ResultJSON r"
  shows "Input_Token r = Query q ''input'' \<and> Output_Token r = Query q ''output''"
proof (cases rule: handle_cases [of q env clk cache])
  case (hit fromAddress toAddress r')
  with assms(2) have "r' = r" by simp
  with hit(6) obtain e where
    "stored cache (Query q ''input'') (Query q ''output'') (Query q ''amount'') = Some e"
    "Result e = r"
    using Get_hit_stored by blast
  with assms(1) show ?thesis unfolding labelled_def by blast
next
  case (fetched fromAddress toAddress r')
  with assms(2) have "r' = r" by simp
  with fetched(7) show ?thesis by (simp add: fetchTokenPrice_tokens)
qed (use assms(2) in simp_all)

lemma handle_frame:
  assumes "(i', out', a') \<noteq> (Query q ''input'', Query q ''output'', Query q ''amount'')"
  shows "stored (snd (handleTokenPrice env clk cache q)) i' out' a' = stored cache i' out' a'"
proof (cases rule: handle_cases [of q env clk cache])
  case (fetched fromAddress toAddress r)
  with assms show ?thesis by (simp add: stored_Set_other)
qed simp_all

lemma handle_miss:
  assumes "Query q ''input'' \<noteq> ''''" "Query q ''output'' \<noteq> ''''" "Query q ''amount'' \<noteq> ''''"
    and "tokenAddresses (Query q ''input'') = Some src"
    and "tokenAddresses (Query q ''output'') = Some dst"
    and "snd (TokenPairCache_Get cache (Query q ''input'') (Query q ''output'') (Query q ''amount'')
           (atGet clk)) = False"
  shows "handleTokenPrice env clk cache q =
     (case fetchTokenPrice env (atStamp clk) (Query q ''input'') (Query q ''output'')
             (Query q ''amount'') (targetURL src dst) of
        Inl err \<Rightarrow> (\<lparr>status = 500, body = ErrorJSON err\<rparr>, cache)
      | Inr quote \<Rightarrow>
          (\<lparr>status = 200, body = ResultJSON quote\<rparr>,
           TokenPairCache_Set cache (Query q ''input'') (Query q ''output'') (Query q ''amount'')
             quote (atSet clk)))"
  using assms by (cases rule: handle_cases [of q env clk cache]) auto

lemma handle_hit:
  assumes "Query q ''input'' \<noteq> ''''" "Query q ''output'' \<noteq> ''''" "Query q ''amount'' \<noteq> ''''"
    and "tokenAddresses (Query q ''input'') \<noteq> None"
    and "tokenAddresses (Query q ''output'') \<noteq> None"
    and "stored cache (Query q ''input'') (Query q ''output'') (Query q ''amount'') = Some e"
    and "atGet clk \<le> ExpiresAt e"
  shows "handleTokenPrice env clk cache q =
     (\<lparr>status = 200, body = ResultJSON (Result e)\<rparr>, cache)"
proof -
  from assms(6,7)
  have "TokenPairCache_Get cache (Query q ''input'') (Query q ''output'') (Query q ''amount'')
          (atGet clk) = (Result e, True)"
    by (simp add: Get_stored)
  with assms(1-5) show ?thesis
    by (cases rule: handle_cases [of q env clk cache]) auto
qed

text \<open>The answer depends on the cache through the entry of the submitted triple only.\<close>

lemma handle_own_triple:
  assumes "stored cache (Query q ''input'') (Query q ''output'') (Query q ''amount'') =
           stored cache' (Query q ''input'') (Query q ''output'') (Query q ''amount'')"
  shows "fst (handleTokenPrice env clk cache q) = fst (handleTokenPrice env clk cache' q)"
proof -
  from assms
  have "TokenPairCache_Get cache (Query q ''input'') (Query q ''output'') (Query q ''amount'')
          (atGet clk) =
        TokenPairCache_Get cache' (Query q ''input'') (Query q ''output'') (Query q ''amount'')
          (atGet clk)"
    by (simp add: Get_stored)
  then show ?thesis
    unfolding handleTokenPrice_def Let_def
    by (simp split: option.splits prod.splits bool.splits sum.splits)
qed

text \<open>The fetcher asks the browser for the URL it is given, and for nothing else.\<close>

lemma fetch_asks_url:
  assumes "Run env url a = Run env' url a" "TrimSpace env = TrimSpace env'"
    "ParseFloat env = ParseFloat env'" "Format env = Format env'"
  shows "fetchTokenPrice env now i out a url = fetchTokenPrice env' now i out a url"
  unfolding fetchTokenPrice_def assms ..

lemmas address_defs = MON_ADDRESS_def DAK_ADDRESS_def LBTC_ADDRESS_def USDC_ADDRESS_def
  USDT_ADDRESS_def WETH_ADDRESS_def WBTC_ADDRESS_def

lemma registry_usdc: "tokenAddresses s = Some USDC_ADDRESS \<longleftrightarrow> s = ''usdc'' \<or> s = ''usdt''"
  by (simp add: tokenAddresses_def address_defs)

lemma registry_mon: "tokenAddresses s = Some MON_ADDRESS \<longleftrightarrow> s = ''mon'' \<or> s = ''wmon''"
  by (simp add: tokenAddresses_def address_defs)

lemma serve_example:
  "serve [(env_with (page_showing ''0.5''), clock0, request ''usdc'' ''eth'' ''1'')]
     NewTokenPairCache =
   TokenPairCache_Set NewTokenPairCache ''usdc'' ''eth'' ''1'' quote_usdc_eth 6001"
  using handle_example [of "''usdc''"] by (simp add: quote_usdc_eth_def)

lemma fetch_example_only_at:
  "fetchTokenPrice (env_with (page_only_at (targetURL USDC_ADDRESS WETH_ADDRESS) ''0.5'')) t
     i ''eth'' ''1'' (targetURL USDT_ADDRESS WETH_ADDRESS) =
   Inr (quote_usdc_eth\<lparr>Input_Token := i\<rparr>)"
proof -
  have "fetchTokenPrice (env_with (page_only_at (targetURL USDC_ADDRESS WETH_ADDRESS) ''0.5'')) t
     i ''eth'' ''1'' (targetURL USDT_ADDRESS WETH_ADDRESS) =
     fetchTokenPrice (env_with (page_showing ''0.5'')) t
     i ''eth'' ''1'' (targetURL USDT_ADDRESS WETH_ADDRESS)"
    by (rule fetch_asks_url)
      (simp_all add: env_with_def page_only_at_def page_showing_def targetURL_def address_defs)
  then show ?thesis by (simp add: fetch_example)
qed

text \<open>Projections from a long conjunction.\<close>

lemma conj_drop7: "A1 \<and> A2 \<and> A3 \<and> A4 \<and> A5 \<and> A6 \<and> A7 \<and> R \<Longrightarrow> R"
  by simp

lemma conj_drop11:
  "A1 \<and> A2 \<and> A3 \<and> A4 \<and> A5 \<and> A6 \<and> A7 \<and> A8 \<and> A9 \<and> A10 \<and> A11 \<and> R \<Longrightarrow> R"
  by simp

text \<open>
  C10. The registry gives "usdt" the address of "usdc" and "wmon" the address of "mon",
  and no other symbol shares an address. A request that misses the cache is answered by
  the fetch at the URL built from the two addresses the registry gives for its symbols, so
  an aliased symbol is scraped at the URL of the other; the fetcher asks the browser for
  that URL only. Yet the cache is keyed by the symbols as submitted: a request is answered
  from the entry stored under its own triple and from no other (its answer is the same on
  any two caches that agree on that triple), a stored quote is set under the submitted
  triple, and the entry of every other triple, so of the aliased symbol too, is left as it
  was. On every cache the server can reach from the empty one each entry is labelled with
  the symbols it is stored under, and the quote of a 200 answer carries the two symbols
  exactly as the request submitted them.
\<close>

theorem aliases_keep_their_label:
  "(tokenAddresses s = Some USDC_ADDRESS \<longleftrightarrow> s = ''usdc'' \<or> s = ''usdt'') \<and>
   (tokenAddresses s = Some MON_ADDRESS \<longleftrightarrow> s = ''mon'' \<or> s = ''wmon'') \<and>
   tokenAddresses ''usdt'' = Some USDT_ADDRESS \<and> tokenAddresses ''usdc'' = Some USDC_ADDRESS \<and>
   (USDT_ADDRESS = USDC_ADDRESS \<and>
    targetURL USDT_ADDRESS dst = targetURL USDC_ADDRESS dst \<and>
    targetURL src USDT_ADDRESS = targetURL src USDC_ADDRESS) \<and>
   tokenAddresses ''wmon'' = Some MON_ADDRESS \<and> tokenAddresses ''mon'' = Some MON_ADDRESS \<and>
   (Query q ''input'' \<noteq> '''' \<and> Query q ''output'' \<noteq> '''' \<and> Query q ''amount'' \<noteq> '''' \<and>
    tokenAddresses (Query q ''input'') = Some src \<and>
    tokenAddresses (Query q ''output'') = Some dst \<and>
    snd (TokenPairCache_Get cache (Query q ''input'') (Query q ''output'') (Query q ''amount'')
           (atGet clk)) = False \<longrightarrow>
      handleTokenPrice env clk cache q =
        (case fetchTokenPrice env (atStamp clk) (Query q ''input'') (Query q ''output'')
                (Query q ''amount'') (targetURL src dst) of
           Inl err \<Rightarrow> (\<lparr>status = 500, body = ErrorJSON err\<rparr>, cache)
         | Inr quote \<Rightarrow>
             (\<lparr>status = 200, body = ResultJSON quote\<rparr>,
              TokenPairCache_Set cache (Query q ''input'') (Query q ''output'')
                (Query q ''amount'') quote (atSet clk)))) \<and>
   (Run env url a = Run env' url a \<and> TrimSpace env = TrimSpace env' \<and>
    ParseFloat env = ParseFloat env' \<and> Format env = Format env' \<longrightarrow>
      fetchTokenPrice env now i out a url = fetchTokenPrice env' now i out a url) \<and>
   (Query q ''input'' \<noteq> '''' \<and> Query q ''output'' \<noteq> '''' \<and> Query q ''amount'' \<noteq> '''' \<and>
    tokenAddresses (Query q ''input'') \<noteq> None \<and> tokenAddresses (Query q ''output'') \<noteq> None \<and>
    stored cache (Query q ''input'') (Query q ''output'') (Query q ''amount'') = Some e \<and>
    atGet clk \<le> ExpiresAt e \<longrightarrow>
      handleTokenPrice env clk cache q =
        (\<lparr>status = 200, body = ResultJSON (Result e)\<rparr>, cache)) \<and>
   (stored cache (Query q ''input'') (Query q ''output'') (Query q ''amount'') =
    stored cache' (Query q ''input'') (Query q ''output'') (Query q ''amount'') \<longrightarrow>
      fst (handleTokenPrice env clk cache q) = fst (handleTokenPrice env clk cache' q)) \<and>
   (snd (handleTokenPrice env clk cache q) \<noteq> cache \<longrightarrow>
      (\<exists>quote.
         body (fst (handleTokenPrice env clk cache q)) = ResultJSON quote \<and>
         snd (handleTokenPrice env clk cache q) =
           TokenPairCache_Set cache (Query q ''input'') (Query q ''output'') (Query q ''amount'')
             quote (atSet clk))) \<and>
   ((i', out', a') \<noteq> (Query q ''input'', Query q ''output'', Query q ''amount'') \<longrightarrow>
      stored (snd (handleTokenPrice env clk cache q)) i' out' a' = stored cache i' out' a') \<and>
   labelled (serve history NewTokenPairCache) \<and>
   (body (fst (handleTokenPrice env clk (serve history NewTokenPairCache) q)) = ResultJSON r \<longrightarrow>
      Input_Token r = Query q ''input'' \<and> Output_Token r = Query q ''output'')"
proof -
  have regu: "tokenAddresses s = Some USDC_ADDRESS \<longleftrightarrow> s = ''usdc'' \<or> s = ''usdt''"
    by (rule registry_usdc)
  have regm: "tokenAddresses s = Some MON_ADDRESS \<longleftrightarrow> s = ''mon'' \<or> s = ''wmon''"
    by (rule registry_mon)
  have r1: "tokenAddresses ''usdt'' = Some USDT_ADDRESS"
    and r2: "tokenAddresses ''usdc'' = Some USDC_ADDRESS"
    and r3: "tokenAddresses ''wmon'' = Some MON_ADDRESS"
    and r4: "tokenAddresses ''mon'' = Some MON_ADDRESS"
    by (simp_all add: tokenAddresses_simps)
  have same: "USDT_ADDRESS = USDC_ADDRESS"
    by (simp add: USDT_ADDRESS_def USDC_ADDRESS_def)
  have url: "targetURL USDT_ADDRESS dst = targetURL USDC_ADDRESS dst"
    "targetURL src USDT_ADDRESS = targetURL src USDC_ADDRESS"
    by (simp_all add: same)
  have miss: "Query q ''input'' \<noteq> '''' \<and> Query q ''output'' \<noteq> '''' \<and> Query q ''amount'' \<noteq> '''' \<and>
    tokenAddresses (Query q ''input'') = Some src \<and>
    tokenAddresses (Query q ''output'') = Some dst \<and>
    snd (TokenPairCache_Get cache (Query q ''input'') (Query q ''output'') (Query q ''amount'')
           (atGet clk)) = False \<longrightarrow>
      handleTokenPrice env clk cache q =
        (case fetchTokenPrice env (atStamp clk) (Query q ''input'') (Query q ''output'')
                (Query q ''amount'') (targetURL src dst) of
           Inl err \<Rightarrow> (\<lparr>status = 500, body = ErrorJSON err\<rparr>, cache)
         | Inr quote \<Rightarrow>
             (\<lparr>status = 200, body = ResultJSON quote\<rparr>,
              TokenPairCache_Set cache (Query q ''input'') (Query q ''output'')
                (Query q ''amount'') quote (atSet clk)))"
    using handle_miss [of q src dst cache clk env] by blast
  have asks: "Run env url a = Run env' url a \<and> TrimSpace env = TrimSpace env' \<and>
    ParseFloat env = ParseFloat env' \<and> Format env = Format env' \<longrightarrow>
      fetchTokenPrice env now i out a url = fetchTokenPrice env' now i out a url"
    using fetch_asks_url [of env url a env' now i out] by blast
  have hit: "Query q ''input'' \<noteq> '''' \<and> Query q ''output'' \<noteq> '''' \<and> Query q ''amount'' \<noteq> '''' \<and>
    tokenAddresses (Query q ''input'') \<noteq> None \<and> tokenAddresses (Query q ''output'') \<noteq> None \<and>
    stored cache (Query q ''input'') (Query q ''output'') (Query q ''amount'') = Some e \<and>
    atGet clk \<le> ExpiresAt e \<longrightarrow>
      handleTokenPrice env clk cache q =
        (\<lparr>status = 200, body = ResultJSON (Result e)\<rparr>, cache)"
    using handle_hit [of q cache e clk env] by blast
  have own: "stored cache (Query q ''input'') (Query q ''output'') (Query q ''amount'') =
    stored cache' (Query q ''input'') (Query q ''output'') (Query q ''amount'') \<longrightarrow>
      fst (handleTokenPrice env clk cache q) = fst (handleTokenPrice env clk cache' q)"
    using handle_own_triple [of cache q cache' env clk] by blast
  have changed: "snd (handleTokenPrice env clk cache q) \<noteq> cache \<longrightarrow>
      (\<exists>quote.
         body (fst (handleTokenPrice env clk cache q)) = ResultJSON quote \<and>
         snd (handleTokenPrice env clk cache q) =
           TokenPairCache_Set cache (Query q ''input'') (Query q ''output'') (Query q ''amount'')
             quote (atSet clk))"
  proof
    assume "snd (handleTokenPrice env clk cache q) \<noteq> cache"
    from handle_cache_changed [OF this] obtain r where
      "handleTokenPrice env clk cache q =
         (\<lparr>status = 200, body = ResultJSON r\<rparr>,
          TokenPairCache_Set cache (Query q ''input'') (Query q ''output'') (Query q ''amount'') r
            (atSet clk))"
      by blast
    then show "\<exists>quote.
         body (fst (handleTokenPrice env clk cache q)) = ResultJSON quote \<and>
         snd (handleTokenPrice env clk cache q) =
           TokenPairCache_Set cache (Query q ''input'') (Query q ''output'') (Query q ''amount'')
             quote (atSet clk)"
      by simp
  qed
  have frame: "(i', out', a') \<noteq> (Query q ''input'', Query q ''output'', Query q ''amount'') \<longrightarrow>
      stored (snd (handleTokenPrice env clk cache q)) i' out' a' = stored cache i' out' a'"
    using handle_frame [of i' out' a' q env clk cache] by blast
  have inv: "labelled (serve history NewTokenPairCache)"
    using labelled_empty by (rule serve_labelled)
  have label: "body (fst (handleTokenPrice env clk (serve history NewTokenPairCache) q)) =
      ResultJSON r \<longrightarrow>
      Input_Token r = Query q ''input'' \<and> Output_Token r = Query q ''output''"
    using handle_tokens_as_submitted [OF inv, of env clk q r] by blast
  show ?thesis
    by (intro conjI)
      (rule regu regm r1 r2 same url r3 r4 miss asks hit own changed frame inv label)+
qed

theorem aliases_keep_their_label_witness:
  "tokenAddresses ''usdt'' = Some USDC_ADDRESS \<and>
   labelled (serve [(env_with (page_showing ''0.5''), clock0, request ''usdc'' ''eth'' ''1'')]
     NewTokenPairCache) \<and>
   handleTokenPrice (env_with page_down) clock1
       (serve [(env_with (page_showing ''0.5''), clock0, request ''usdc'' ''eth'' ''1'')]
          NewTokenPairCache)
       (request ''usdc'' ''eth'' ''1'') =
     (\<lparr>status = 200, body = ResultJSON quote_usdc_eth\<rparr>,
      serve [(env_with (page_showing ''0.5''), clock0, request ''usdc'' ''eth'' ''1'')]
        NewTokenPairCache) \<and>
   handleTokenPrice (env_with page_down) clock1
       (serve [(env_with (page_showing ''0.5''), clock0, request ''usdc'' ''eth'' ''1'')]
          NewTokenPairCache)
       (request ''usdt'' ''eth'' ''1'') =
     (\<lparr>status = 500, body = ErrorJSON ''context deadline exceeded''\<rparr>,
      serve [(env_with (page_showing ''0.5''), clock0, request ''usdc'' ''eth'' ''1'')]
        NewTokenPairCache) \<and>
   fst (handleTokenPrice (env_with page_down) clock1
       (serve [(env_with (page_showing ''0.5''), clock0, request ''usdc'' ''eth'' ''1'')]
          NewTokenPairCache)
       (request ''usdt'' ''eth'' ''1'')) =
     fst (handleTokenPrice (env_with page_down) clock1 NewTokenPairCache
       (request ''usdt'' ''eth'' ''1'')) \<and>
   fetchTokenPrice (env_with (page_only_at (targetURL USDC_ADDRESS WETH_ADDRESS) ''0.5'')) 14000
       ''usdt'' ''eth'' ''1'' (targetURL USDT_ADDRESS WETH_ADDRESS) =
     fetchTokenPrice (env_with (page_showing ''0.5'')) 14000
       ''usdt'' ''eth'' ''1'' (targetURL USDT_ADDRESS WETH_ADDRESS) \<and>
   handleTokenPrice (env_with (page_only_at (targetURL USDC_ADDRESS WETH_ADDRESS) ''0.5'')) clock1
       (serve [(env_with (page_showing ''0.5''), clock0, request ''usdc'' ''eth'' ''1'')]
          NewTokenPairCache)
       (request ''usdt'' ''eth'' ''1'') =
     (\<lparr>status = 200, body = ResultJSON (quote_usdc_eth\<lparr>Input_Token := ''usdt''\<rparr>)\<rparr>,
      TokenPairCache_Set
        (serve [(env_with (page_showing ''0.5''), clock0, request ''usdc'' ''eth'' ''1'')]
           NewTokenPairCache)
        ''usdt'' ''eth'' ''1'' (quote_usdc_eth\<lparr>Input_Token := ''usdt''\<rparr>) 14001) \<and>
   Input_Token (quote_usdc_eth\<lparr>Input_Token := ''usdt''\<rparr>) = ''usdt'' \<and>
   Output_Token (quote_usdc_eth\<lparr>Input_Token := ''usdt''\<rparr>) = ''eth'' \<and>
   stored (snd (handleTokenPrice
       (env_with (page_only_at (targetURL USDC_ADDRESS WETH_ADDRESS) ''0.5'')) clock1
       (serve [(env_with (page_showing ''0.5''), clock0, request ''usdc'' ''eth'' ''1'')]
          NewTokenPairCache)
       (request ''usdt'' ''eth'' ''1''))) ''usdc'' ''eth'' ''1'' =
     Some \<lparr>Result = quote_usdc_eth, ExpiresAt = 7200000006001\<rparr> \<and>
   stored (snd (handleTokenPrice
       (env_with (page_only_at (targetURL USDC_ADDRESS WETH_ADDRESS) ''0.5'')) clock1
       (serve [(env_with (page_showing ''0.5''), clock0, request ''usdc'' ''eth'' ''1'')]
          NewTokenPairCache)
       (request ''usdt'' ''eth'' ''1''))) ''usdt'' ''eth'' ''1'' =
     Some \<lparr>Result = quote_usdc_eth\<lparr>Input_Token := ''usdt''\<rparr>, ExpiresAt = 7200000014001\<rparr>"
proof -
  let ?h1 = "[(env_with (page_showing ''0.5''), clock0, request ''usdc'' ''eth'' ''1'')]"
  let ?c1 = "serve ?h1 NewTokenPairCache"
  let ?down = "env_with page_down"
  let ?only = "env_with (page_only_at (targetURL USDC_ADDRESS WETH_ADDRESS) ''0.5'')"
  let ?qt = "request ''usdt'' ''eth'' ''1''"
  let ?qc = "request ''usdc'' ''eth'' ''1''"
  let ?rt = "quote_usdc_eth\<lparr>Input_Token := ''usdt''\<rparr>"
  note [simp del] = serve.simps
  have c1: "?c1 = TokenPairCache_Set NewTokenPairCache ''usdc'' ''eth'' ''1'' quote_usdc_eth 6001"
    by (rule serve_example)
  have st_c: "stored ?c1 ''usdc'' ''eth'' ''1'' =
      Some \<lparr>Result = quote_usdc_eth, ExpiresAt = 7200000006001\<rparr>"
    unfolding c1 by (simp add: stored_Set_same CACHE_TTL_def)
  have st_t: "stored ?c1 ''usdt'' ''eth'' ''1'' = None"
    unfolding c1 by (simp add: stored_Set_other) (simp add: stored_def NewTokenPairCache_def)
  have st_0: "stored NewTokenPairCache ''usdt'' ''eth'' ''1'' = None"
    by (simp add: stored_def NewTokenPairCache_def)
  have miss_t: "snd (TokenPairCache_Get ?c1 ''usdt'' ''eth'' ''1'' (atGet clock1)) = False"
    by (simp add: Get_stored st_t)
  \<comment> \<open>the registry\<close>
  note t0 = aliases_keep_their_label [where s = "''usdt''" and history = ?h1]
  from t0 [THEN conjunct1] have 1: "tokenAddresses ''usdt'' = Some USDC_ADDRESS" by simp
  from t0 [THEN conj_drop11, THEN conjunct2, THEN conjunct2, THEN conjunct1]
  have 2: "labelled ?c1" .
  \<comment> \<open>usdc is answered from its own entry, though the page is down\<close>
  note tc = aliases_keep_their_label [where q = ?qc and cache = ?c1 and clk = clock1
      and env = ?down and e = "\<lparr>Result = quote_usdc_eth, ExpiresAt = 7200000006001\<rparr>"]
  have hc: "Query ?qc ''input'' \<noteq> '''' \<and> Query ?qc ''output'' \<noteq> '''' \<and>
      Query ?qc ''amount'' \<noteq> '''' \<and>
      tokenAddresses (Query ?qc ''input'') \<noteq> None \<and> tokenAddresses (Query ?qc ''output'') \<noteq> None \<and>
      stored ?c1 (Query ?qc ''input'') (Query ?qc ''output'') (Query ?qc ''amount'') =
        Some \<lparr>Result = quote_usdc_eth, ExpiresAt = 7200000006001\<rparr> \<and>
      atGet clock1 \<le> ExpiresAt \<lparr>Result = quote_usdc_eth, ExpiresAt = 7200000006001\<rparr>"
    using st_c by (simp add: Query_request tokenAddresses_simps clock1_def)
  from tc [THEN conj_drop7, THEN conjunct2, THEN conjunct2, THEN conjunct1] hc
  have 3: "handleTokenPrice ?down clock1 ?c1 ?qc =
      (\<lparr>status = 200,
         body = ResultJSON (Result \<lparr>Result = quote_usdc_eth, ExpiresAt = 7200000006001\<rparr>)\<rparr>, ?c1)"
    by (rule mp)
  \<comment> \<open>usdt is not: with the page down it fails, as on the empty cache\<close>
  note td = aliases_keep_their_label [where q = ?qt and cache = ?c1 and clk = clock1
      and env = ?down and src = USDT_ADDRESS and dst = WETH_ADDRESS
      and cache' = NewTokenPairCache]
  have ht: "Query ?qt ''input'' \<noteq> '''' \<and> Query ?qt ''output'' \<noteq> '''' \<and>
      Query ?qt ''amount'' \<noteq> '''' \<and>
      tokenAddresses (Query ?qt ''input'') = Some USDT_ADDRESS \<and>
      tokenAddresses (Query ?qt ''output'') = Some WETH_ADDRESS \<and>
      snd (TokenPairCache_Get ?c1 (Query ?qt ''input'') (Query ?qt ''output'')
             (Query ?qt ''amount'') (atGet clock1)) = False"
    using miss_t by (simp add: Query_request tokenAddresses_simps)
  from td [THEN conj_drop7, THEN conjunct1] ht have "handleTokenPrice ?down clock1 ?c1 ?qt =
      (case fetchTokenPrice ?down (atStamp clock1) (Query ?qt ''input'') (Query ?qt ''output'')
              (Query ?qt ''amount'') (targetURL USDT_ADDRESS WETH_ADDRESS) of
         Inl err \<Rightarrow> (\<lparr>status = 500, body = ErrorJSON err\<rparr>, ?c1)
       | Inr quote \<Rightarrow>
           (\<lparr>status = 200, body = ResultJSON quote\<rparr>,
            TokenPairCache_Set ?c1 (Query ?qt ''input'') (Query ?qt ''output'')
              (Query ?qt ''amount'') quote (atSet clock1)))"
    by (rule mp)
  then have 4: "handleTokenPrice ?down clock1 ?c1 ?qt =
      (\<lparr>status = 500, body = ErrorJSON ''context deadline exceeded''\<rparr>, ?c1)"
    by (simp add: fetch_example_down)
  have same_t: "stored ?c1 (Query ?qt ''input'') (Query ?qt ''output'') (Query ?qt ''amount'') =
      stored NewTokenPairCache (Query ?qt ''input'') (Query ?qt ''output'') (Query ?qt ''amount'')"
    by (simp add: Query_request st_t st_0)
  from td [THEN conj_drop7, THEN conjunct2, THEN conjunct2, THEN conjunct2, THEN conjunct1] same_t
  have 5: "fst (handleTokenPrice ?down clock1 ?c1 ?qt) =
      fst (handleTokenPrice ?down clock1 NewTokenPairCache ?qt)"
    by (rule mp)
  \<comment> \<open>the page exists at the usdc URL only, and the usdt request is fetched there\<close>
  note tf = aliases_keep_their_label [where env = ?only and env' = "env_with (page_showing ''0.5'')"
      and url = "targetURL USDT_ADDRESS WETH_ADDRESS" and a = "''1''" and now = 14000
      and i = "''usdt''" and out = "''eth''"]
  have hf: "Run ?only (targetURL USDT_ADDRESS WETH_ADDRESS) ''1'' =
        Run (env_with (page_showing ''0.5'')) (targetURL USDT_ADDRESS WETH_ADDRESS) ''1'' \<and>
      TrimSpace ?only = TrimSpace (env_with (page_showing ''0.5'')) \<and>
      ParseFloat ?only = ParseFloat (env_with (page_showing ''0.5'')) \<and>
      Format ?only = Format (env_with (page_showing ''0.5''))"
    by (simp add: env_with_def page_only_at_def page_showing_def targetURL_def address_defs)
  from tf [THEN conj_drop7, THEN conjunct2, THEN conjunct1] hf
  have 6: "fetchTokenPrice ?only 14000 ''usdt'' ''eth'' ''1''
        (targetURL USDT_ADDRESS WETH_ADDRESS) =
      fetchTokenPrice (env_with (page_showing ''0.5'')) 14000 ''usdt'' ''eth'' ''1''
        (targetURL USDT_ADDRESS WETH_ADDRESS)"
    by (rule mp)
  note to = aliases_keep_their_label [where q = ?qt and cache = ?c1 and clk = clock1
      and env = ?only and src = USDT_ADDRESS and dst = WETH_ADDRESS and history = ?h1
      and r = ?rt and i' = "''usdc''" and out' = "''eth''" and a' = "''1''"]
  from to [THEN conj_drop7, THEN conjunct1] ht have "handleTokenPrice ?only clock1 ?c1 ?qt =
      (case fetchTokenPrice ?only (atStamp clock1) (Query ?qt ''input'') (Query ?qt ''output'')
              (Query ?qt ''amount'') (targetURL USDT_ADDRESS WETH_ADDRESS) of
         Inl err \<Rightarrow> (\<lparr>status = 500, body = ErrorJSON err\<rparr>, ?c1)
       | Inr quote \<Rightarrow>
           (\<lparr>status = 200, body = ResultJSON quote\<rparr>,
            TokenPairCache_Set ?c1 (Query ?qt ''input'') (Query ?qt ''output'')
              (Query ?qt ''amount'') quote (atSet clock1)))"
    by (rule mp)
  then have 7: "handleTokenPrice ?only clock1 ?c1 ?qt =
      (\<lparr>status = 200, body = ResultJSON ?rt\<rparr>,
       TokenPairCache_Set ?c1 ''usdt'' ''eth'' ''1'' ?rt 14001)"
    by (simp add: Query_request clock1_def fetch_example_only_at)
  then have b: "body (fst (handleTokenPrice ?only clock1 ?c1 ?qt)) = ResultJSON ?rt"
    by simp
  from to [THEN conj_drop11, THEN conjunct2, THEN conjunct2, THEN conjunct2] b
  have 8: "Input_Token ?rt = Query ?qt ''input'' \<and> Output_Token ?rt = Query ?qt ''output''"
    by (rule mp)
  have ne: "(''usdc'', ''eth'', ''1'') \<noteq> (Query ?qt ''input'', Query ?qt ''output'', Query ?qt ''amount'')"
    by (simp add: Query_request)
  from to [THEN conj_drop11, THEN conjunct2, THEN conjunct1] ne
  have "stored (snd (handleTokenPrice ?only clock1 ?c1 ?qt)) ''usdc'' ''eth'' ''1'' =
      stored ?c1 ''usdc'' ''eth'' ''1''"
    by (rule mp)
  with st_c have 9: "stored (snd (handleTokenPrice ?only clock1 ?c1 ?qt)) ''usdc'' ''eth'' ''1'' =
      Some \<lparr>Result = quote_usdc_eth, ExpiresAt = 7200000006001\<rparr>"
    by simp
  have changed: "snd (handleTokenPrice ?only clock1 ?c1 ?qt) \<noteq> ?c1"
  proof
    assume "snd (handleTokenPrice ?only clock1 ?c1 ?qt) = ?c1"
    then have "stored (snd (handleTokenPrice ?only clock1 ?c1 ?qt)) ''usdt'' ''eth'' ''1'' =
        stored ?c1 ''usdt'' ''eth'' ''1''"
      by simp
    then show False by (simp add: 7 stored_Set_same st_t)
  qed
  from to [THEN conj_drop11, THEN conjunct1] changed
  have "\<exists>quote.
      body (fst (handleTokenPrice ?only clock1 ?c1 ?qt)) = ResultJSON quote \<and>
      snd (handleTokenPrice ?only clock1 ?c1 ?qt) =
        TokenPairCache_Set ?c1 (Query ?qt ''input'') (Query ?qt ''output'') (Query ?qt ''amount'')
          quote (atSet clock1)"
    by (rule mp)
  then obtain quote where
    q1: "body (fst (handleTokenPrice ?only clock1 ?c1 ?qt)) = ResultJSON quote"
    and q2: "snd (handleTokenPrice ?only clock1 ?c1 ?qt) =
       TokenPairCache_Set ?c1 (Query ?qt ''input'') (Query ?qt ''output'') (Query ?qt ''amount'')
         quote (atSet clock1)"
    by blast
  from q1 b have "quote = ?rt" by simp
  with q2 have 10: "stored (snd (handleTokenPrice ?only clock1 ?c1 ?qt)) ''usdt'' ''eth'' ''1'' =
      Some \<lparr>Result = ?rt, ExpiresAt = 7200000014001\<rparr>"
    by (simp add: Query_request stored_Set_same clock1_def CACHE_TTL_def)
  from 3 have hit_c: "handleTokenPrice ?down clock1 ?c1 ?qc =
      (\<lparr>status = 200, body = ResultJSON quote_usdc_eth\<rparr>, ?c1)"
    by simp
  from 8 have lab_t: "Input_Token ?rt = ''usdt''" "Output_Token ?rt = ''eth''"
    by (simp_all add: Query_request)
  from 1 2 hit_c 4 5 6 7 lab_t 9 10 show ?thesis
    by (intro conjI)
qed

end
